theory Spec2Isabelle
  imports Complex_Main
begin

section \<open>Errors\<close>

text \<open>
  Every failure of the server is a JavaScript \<open>Error\<close> carrying a message; a thrown
  error is the \<open>Inl\<close> branch of a result.
\<close>

datatype error = Error string

fun message :: "error \<Rightarrow> string" where
  "message (Error m) = m"

section \<open>Rate limiting (index.ts, lines 94-129)\<close>

definition perMinute :: nat where
  "perMinute = 20"

definition perDay :: nat where
  "perDay = 500"

text \<open>
  The module-level object \<open>requestCount\<close>. Times are \<open>Date.now()\<close> readings in
  milliseconds.
\<close>

record requestCount =
  minute :: nat
  day :: nat
  lastMinuteReset :: int
  lastDayReset :: int

definition RateLimitExceeded :: error where
  "RateLimitExceeded = Error ''Rate limit exceeded. Please try again later.''"

text \<open>
  \<open>checkRateLimit\<close> at clock reading \<open>now\<close>. The two window resets are written to
  the state before the limits are tested, so they persist when the call throws.
\<close>

definition checkRateLimit :: "int \<Rightarrow> requestCount \<Rightarrow> (error + unit) \<times> requestCount" where
  "checkRateLimit now rc0 =
     (let rc1 = (if now - lastMinuteReset rc0 > 60000
                 then rc0\<lparr>minute := 0, lastMinuteReset := now\<rparr> else rc0);
          rc2 = (if now - lastDayReset rc1 > 86400000
                 then rc1\<lparr>day := 0, lastDayReset := now\<rparr> else rc1)
      in if minute rc2 \<ge> perMinute \<or> day rc2 \<ge> perDay
         then (Inl RateLimitExceeded, rc2)
         else (Inr (), rc2\<lparr>minute := minute rc2 + 1, day := day rc2 + 1\<rparr>))"

text \<open>
  A sequence of calls at the clock readings \<open>ts\<close>: for each call the state before it,
  its outcome and the state after it.
\<close>

fun calls :: "int list \<Rightarrow> requestCount \<Rightarrow> (requestCount \<times> (error + unit) \<times> requestCount) list" where
  "calls [] rc = []"
| "calls (t # ts) rc =
     (let (r, rc') = checkRateLimit t rc in (rc, r, rc') # calls ts rc')"

text \<open>
  What the \<open>k\<close>-th call (counted from 0) of a minute window does, as a predicate on its
  entry of the trace; \<open>t\<close> is the clock reading of the call.
\<close>

definition windowCall :: "nat \<Rightarrow> int \<Rightarrow> requestCount \<times> (error + unit) \<times> requestCount \<Rightarrow> bool" where
  "windowCall k t c =
     (case c of (b, r, a) \<Rightarrow>
        minute b = min 20 k \<and>
        (if k < 20
         then r = Inr () \<and> minute a = minute b + 1 \<and>
              day a = (if t - lastDayReset b > 86400000 then 0 else day b) + 1
         else r = Inl RateLimitExceeded \<and> minute a = minute b \<and>
              day a = (if t - lastDayReset b > 86400000 then 0 else day b)))"

text \<open>
  A sequence of calls as a whole: whether every call succeeded, and the state after the
  last one.
\<close>

fun runCalls :: "int list \<Rightarrow> requestCount \<Rightarrow> bool \<times> requestCount" where
  "runCalls [] rc = (True, rc)"
| "runCalls (t # ts) rc =
     (case checkRateLimit t rc of
        (r, rc') \<Rightarrow> (case runCalls ts rc' of (allOk, rc'') \<Rightarrow> (r = Inr () \<and> allOk, rc'')))"

section \<open>JavaScript values\<close>

text \<open>
  Numbers. JSON carries finite numbers only; \<open>NaN\<close> and the infinities arise from the
  arithmetic of the code. A finite double is modelled by the rational it denotes: the
  rounding of double arithmetic, overflow and the sign of zero are not modelled, so a
  printed digit can differ where a result of the code's arithmetic is not exact. No
  property below rests on such a digit.
\<close>

datatype jsnum = NaN | PosInf | NegInf | Fin rat

text \<open>
  A field the code reads as a number: missing (\<open>undefined\<close>: the property or the array
  index does not exist), JSON \<open>null\<close>, or a number.
\<close>

datatype jsval = Undefined | Null | Num jsnum

text \<open>The coercion \<open>ToNumber\<close> that \<open>-\<close>, \<open>/\<close> and \<open>*\<close> apply to their operands.\<close>

fun toNumber :: "jsval \<Rightarrow> jsnum" where
  "toNumber Undefined = NaN"
| "toNumber Null = Fin 0"
| "toNumber (Num x) = x"

fun jsub :: "jsnum \<Rightarrow> jsnum \<Rightarrow> jsnum" where
  "jsub NaN _ = NaN"
| "jsub _ NaN = NaN"
| "jsub PosInf PosInf = NaN"
| "jsub NegInf NegInf = NaN"
| "jsub PosInf _ = PosInf"
| "jsub NegInf _ = NegInf"
| "jsub (Fin a) PosInf = NegInf"
| "jsub (Fin a) NegInf = PosInf"
| "jsub (Fin a) (Fin b) = Fin (a - b)"

fun jdiv :: "jsnum \<Rightarrow> jsnum \<Rightarrow> jsnum" where
  "jdiv NaN _ = NaN"
| "jdiv _ NaN = NaN"
| "jdiv (Fin a) (Fin b) =
     (if b = 0 then (if a = 0 then NaN else if 0 < a then PosInf else NegInf)
      else Fin (a / b))"
| "jdiv (Fin a) _ = Fin 0"
| "jdiv PosInf (Fin b) = (if b < 0 then NegInf else PosInf)"
| "jdiv NegInf (Fin b) = (if b < 0 then PosInf else NegInf)"
| "jdiv _ _ = NaN"

fun jmul :: "jsnum \<Rightarrow> jsnum \<Rightarrow> jsnum" where
  "jmul NaN _ = NaN"
| "jmul _ NaN = NaN"
| "jmul (Fin a) (Fin b) = Fin (a * b)"
| "jmul (Fin a) PosInf = (if a = 0 then NaN else if 0 < a then PosInf else NegInf)"
| "jmul (Fin a) NegInf = (if a = 0 then NaN else if 0 < a then NegInf else PosInf)"
| "jmul PosInf (Fin b) = (if b = 0 then NaN else if 0 < b then PosInf else NegInf)"
| "jmul NegInf (Fin b) = (if b = 0 then NaN else if 0 < b then NegInf else PosInf)"
| "jmul PosInf PosInf = PosInf"
| "jmul NegInf NegInf = PosInf"
| "jmul _ _ = NegInf"

text \<open>Truthiness of a numeric field, as \<open>||\<close>, \<open>&&\<close> and \<open>? :\<close> test it.\<close>

fun truthy :: "jsval \<Rightarrow> bool" where
  "truthy Undefined = False"
| "truthy Null = False"
| "truthy (Num NaN) = False"
| "truthy (Num (Fin a)) = (a \<noteq> 0)"
| "truthy (Num _) = True"

definition jsOr :: "jsval \<Rightarrow> jsval \<Rightarrow> jsval" where
  "jsOr a b = (if truthy a then a else b)"

text \<open>Array indexing \<open>xs?.[i]\<close>; a missing array is the empty list.\<close>

definition atIdx :: "jsval list \<Rightarrow> nat \<Rightarrow> jsval" where
  "atIdx xs i = (if i < length xs then xs ! i else Undefined)"

text \<open>
  A string-valued property: \<open>None\<close> when it is missing. \<open>a || b\<close> on such properties,
  and their interpolation into a template literal.
\<close>

definition strOr :: "string option \<Rightarrow> string option \<Rightarrow> string option" where
  "strOr a b = (case a of None \<Rightarrow> b | Some s \<Rightarrow> if s = [] then b else a)"

fun render :: "string option \<Rightarrow> string" where
  "render None = ''undefined''"
| "render (Some s) = s"

text \<open>\<open>x?.f() || 'N/A'\<close> for a method \<open>f\<close> that returns a string.\<close>

definition orElse :: "string option \<Rightarrow> string \<Rightarrow> string" where
  "orElse a d = (case a of None \<Rightarrow> d | Some s \<Rightarrow> if s = [] then d else s)"

section \<open>Strings\<close>

definition nl :: string where
  "nl = [CHR 0x0A]"

definition isSpace :: "char \<Rightarrow> bool" where
  "isSpace c = (c \<in> set [CHR 0x09, CHR 0x0A, CHR 0x0B, CHR 0x0C, CHR 0x0D, CHR 0x20])"

text \<open>\<open>String.prototype.trim\<close>, on the ASCII white space.\<close>

definition trim :: "string \<Rightarrow> string" where
  "trim s = rev (dropWhile isSpace (rev (dropWhile isSpace s)))"

definition padEnd :: "string \<Rightarrow> nat \<Rightarrow> string" where
  "padEnd s n = s @ replicate (n - length s) (CHR 0x20)"

text \<open>\<open>Array.prototype.join\<close>.\<close>

fun join :: "string \<Rightarrow> string list \<Rightarrow> string" where
  "join sep [] = []"
| "join sep [x] = x"
| "join sep (x # y # ys) = x @ sep @ join sep (y # ys)"

definition digit :: "int \<Rightarrow> char" where
  "digit d = ''0123456789'' ! nat d"

text \<open>The decimal numeral of a non-negative integer.\<close>

function showDigits :: "int \<Rightarrow> string" where
  "showDigits n = (if n < 10 then [digit n] else showDigits (n div 10) @ [digit (n mod 10)])"
  by pat_completeness auto
termination
  by (relation "measure nat") auto

text \<open>The decimal numeral of a natural number, as a template literal prints it.\<close>

definition showNat :: "nat \<Rightarrow> string" where
  "showNat n = showDigits (int n)"

text \<open>
  \<open>Number.prototype.toFixed(2)\<close>: the nearest multiple of 1/100, the larger on a tie,
  computed on the absolute value and the sign put back. (From \<open>1e21\<close> on JavaScript
  switches to exponent notation, which is not modelled.)
\<close>

fun toFixed2 :: "jsnum \<Rightarrow> string" where
  "toFixed2 NaN = ''NaN''"
| "toFixed2 PosInf = ''Infinity''"
| "toFixed2 NegInf = ''-Infinity''"
| "toFixed2 (Fin q) =
     (let n = \<lfloor>\<bar>q\<bar> * 100 + 1 / 2\<rfloor>
      in (if q < 0 then ''-'' else []) @ showDigits (n div 100) @ ''.'' @
         [digit (n mod 100 div 10), digit (n mod 10)])"

text \<open>
  What the locale and the time zone of the process decide: the renderings
  \<open>Number.prototype.toLocaleString()\<close> and \<open>new Date(ms).toLocaleDateString()\<close>, and the
  start of the local calendar year of a clock reading (in milliseconds).
\<close>

record runtime =
  toLocaleString :: "jsnum \<Rightarrow> string"
  toLocaleDateString :: "jsnum \<Rightarrow> string"
  startOfYear :: "int \<Rightarrow> int"

section \<open>The chart endpoint\<close>

text \<open>
  The metadata block \<open>result.meta\<close> of the chart endpoint, with the properties the
  code reads; the last two are \<open>meta.instrumentInfo?.shortName\<close> and
  \<open>meta.instrumentInfo?.longName\<close>.
\<close>

record meta =
  m_symbol :: "string option"
  m_shortName :: "string option"
  m_longName :: "string option"
  m_currency :: "string option"
  m_regularMarketPrice :: jsval
  m_chartPreviousClose :: jsval
  m_previousClose :: jsval
  m_regularMarketDayLow :: jsval
  m_regularMarketDayHigh :: jsval
  m_fiftyTwoWeekLow :: jsval
  m_fiftyTwoWeekHigh :: jsval
  m_regularMarketVolume :: jsval
  m_firstTradeDate :: jsval
  m_regularMarketTime :: jsval
  m_instrumentShortName :: "string option"
  m_instrumentLongName :: "string option"

text \<open>
  One entry of \<open>chart.result\<close>: the metadata block when present, the timestamps, and the
  arrays of \<open>indicators.quote[0]\<close> (a missing array is the empty list).
\<close>

record chartResult =
  meta :: "meta option"
  timestamp :: "jsval list"
  q_open :: "jsval list"
  q_high :: "jsval list"
  q_low :: "jsval list"
  q_close :: "jsval list"
  q_volume :: "jsval list"

text \<open>
  The payload of a response as the pipelines read it: \<open>response.json()\<close> followed by
  \<open>data.chart?.result?.[0]\<close>. \<open>BodyThrows\<close> is a body that is not JSON, or the JSON
  \<open>null\<close>, on which the property access throws; it carries the message.
\<close>

datatype payload = BodyThrows string | NoResult | Result chartResult

record response =
  status :: nat
  statusText :: string
  body :: payload

definition ok :: "response \<Rightarrow> bool" where
  "ok r = (200 \<le> status r \<and> status r \<le> 299)"

text \<open>
  The request: the chart endpoint with its query parameters \<open>symbol\<close>, \<open>period1\<close>,
  \<open>period2\<close> and \<open>interval\<close>.
\<close>

datatype url = ChartUrl string int int string

section \<open>The retrying fetch (index.ts, lines 146-175)\<close>

text \<open>
  One call of \<open>fetch\<close> either rejects with an error or resolves with a response. The
  network is a function of the number of calls made so far and of the request.
\<close>

datatype outcome = Rejects error | Responds response

type_synonym transport = "nat \<Rightarrow> url \<Rightarrow> outcome"

text \<open>
  The observable effects: the number of \<open>fetch\<close> calls made and the durations, in
  milliseconds, of the \<open>setTimeout\<close> waits, in order.
\<close>

record net =
  fetchCount :: nat
  waits :: "nat list"

text \<open>
  The \<open>while\<close> loop of \<open>fetchWithRetry\<close> with its variables \<open>retries\<close> and
  \<open>lastError\<close>. \<open>maxRetries\<close> is a natural number (every caller leaves it at its
  default, 3). The loop ends: \<open>maxRetries - retries\<close> decreases.
\<close>

function retryLoop :: "transport \<Rightarrow> url \<Rightarrow> nat \<Rightarrow> nat \<Rightarrow> error option \<Rightarrow> net \<Rightarrow> (error + response) \<times> net" where
  "retryLoop fetch u maxRetries retries lastError n =
     (if retries < maxRetries then
        (case fetch (fetchCount n) u of
           Responds r \<Rightarrow>
             if status r = 429
             then retryLoop fetch u maxRetries (retries + 1) lastError
                    (n\<lparr>fetchCount := fetchCount n + 1, waits := waits n @ [2 ^ retries * 1000]\<rparr>)
             else (Inr r, n\<lparr>fetchCount := fetchCount n + 1\<rparr>)
         | Rejects e \<Rightarrow>
             retryLoop fetch u maxRetries (retries + 1) (Some e)
               (n\<lparr>fetchCount := fetchCount n + 1, waits := waits n @ [2 ^ retries * 1000]\<rparr>))
      else (Inl (case lastError of Some e \<Rightarrow> e | None \<Rightarrow> Error ''Maximum retries exceeded''), n))"
  by pat_completeness auto
termination
  by (relation "measure (\<lambda>(fetch, u, maxRetries, retries, lastError, n). maxRetries - retries)") auto

definition fetchWithRetry :: "transport \<Rightarrow> url \<Rightarrow> nat \<Rightarrow> net \<Rightarrow> (error + response) \<times> net" where
  "fetchWithRetry fetch u maxRetries n = retryLoop fetch u maxRetries 0 None n"

section \<open>The quote pipeline (index.ts, lines 209-319)\<close>

text \<open>
  The objects handed to \<open>formatStockQuote\<close> and \<open>formatMarketData\<close> (both take
  \<open>any\<close>): a property the object does not have is \<open>None\<close> or \<open>Undefined\<close>.
\<close>

record quote =
  symbol :: "string option"
  shortName :: "string option"
  longName :: "string option"
  regularMarketPrice :: jsval
  regularMarketChange :: jsval
  regularMarketChangePercent :: jsval
  regularMarketPreviousClose :: jsval
  regularMarketOpen :: jsval
  regularMarketDayLow :: jsval
  regularMarketDayHigh :: jsval
  fiftyTwoWeekLow :: jsval
  fiftyTwoWeekHigh :: jsval
  regularMarketVolume :: jsval
  averageDailyVolume3Month :: jsval
  marketCap :: jsval
  trailingPE :: jsval
  epsTrailingTwelveMonths :: jsval
  dividendYield :: jsval

text \<open>\<open>x?.toLocaleString()\<close> and \<open>x?.toFixed(2)\<close>.\<close>

definition toLocaleStringOpt :: "runtime \<Rightarrow> jsval \<Rightarrow> string option" where
  "toLocaleStringOpt rt v = (case v of Num x \<Rightarrow> Some (toLocaleString rt x) | _ \<Rightarrow> None)"

definition toFixedOpt :: "jsval \<Rightarrow> string option" where
  "toFixedOpt v = (case v of Num x \<Rightarrow> Some (toFixed2 x) | _ \<Rightarrow> None)"

definition formatNumber :: "runtime \<Rightarrow> jsval \<Rightarrow> string" where
  "formatNumber rt num =
     (if num \<noteq> Undefined \<and> num \<noteq> Null then toLocaleString rt (toNumber num) else ''N/A'')"

definition formatPercent :: "jsval \<Rightarrow> string" where
  "formatPercent num =
     (if num \<noteq> Undefined \<and> num \<noteq> Null
      then toFixed2 (jmul (toNumber num) (Fin 100)) @ ''%'' else ''N/A'')"

definition formatStockQuote :: "runtime \<Rightarrow> quote \<Rightarrow> string" where
  "formatStockQuote rt q = trim (nl @
     ''Symbol: '' @ render (symbol q) @ nl @
     ''Name: '' @ render (strOr (strOr (shortName q) (longName q)) (Some ''N/A'')) @ nl @
     ''Price: $'' @ formatNumber rt (regularMarketPrice q) @ nl @
     ''Change: $'' @ formatNumber rt (regularMarketChange q) @
        '' ('' @ formatPercent (regularMarketChangePercent q) @ '')'' @ nl @
     ''Previous Close: $'' @ formatNumber rt (regularMarketPreviousClose q) @ nl @
     ''Open: $'' @ formatNumber rt (regularMarketOpen q) @ nl @
     ''Day Range: $'' @ formatNumber rt (regularMarketDayLow q) @
        '' - $'' @ formatNumber rt (regularMarketDayHigh q) @ nl @
     ''52 Week Range: $'' @ formatNumber rt (fiftyTwoWeekLow q) @
        '' - $'' @ formatNumber rt (fiftyTwoWeekHigh q) @ nl @
     ''Volume: '' @ formatNumber rt (regularMarketVolume q) @ nl @
     ''Avg. Volume: '' @ formatNumber rt (averageDailyVolume3Month q) @ nl @
     ''Market Cap: $'' @ formatNumber rt (marketCap q) @ nl @
     ''P/E Ratio: '' @ formatNumber rt (trailingPE q) @ nl @
     ''EPS: $'' @ formatNumber rt (epsTrailingTwelveMonths q) @ nl @
     ''Dividend Yield: '' @ formatPercent (dividendYield q) @ nl)"

text \<open>The object literal \<open>quoteData\<close> of \<open>fetchStockQuote\<close> (lines 236-254).\<close>

definition quoteData :: "chartResult \<Rightarrow> meta \<Rightarrow> string \<Rightarrow> quote" where
  "quoteData result m ticker =
     \<lparr> symbol = m_symbol m,
       shortName = strOr (strOr (m_shortName m) (m_longName m)) (Some ticker),
       longName = None,
       regularMarketPrice = m_regularMarketPrice m,
       regularMarketChange =
         Num (jsub (toNumber (m_regularMarketPrice m)) (toNumber (m_chartPreviousClose m))),
       regularMarketChangePercent =
         Num (jdiv (jsub (toNumber (m_regularMarketPrice m)) (toNumber (m_chartPreviousClose m)))
                (toNumber (m_chartPreviousClose m))),
       regularMarketPreviousClose = m_chartPreviousClose m,
       regularMarketOpen = atIdx (q_open result) 0,
       regularMarketDayLow = jsOr (m_regularMarketDayLow m) (atIdx (q_low result) 0),
       regularMarketDayHigh = jsOr (m_regularMarketDayHigh m) (atIdx (q_high result) 0),
       fiftyTwoWeekLow = m_fiftyTwoWeekLow m,
       fiftyTwoWeekHigh = m_fiftyTwoWeekHigh m,
       regularMarketVolume = jsOr (m_regularMarketVolume m) (atIdx (q_volume result) 0),
       averageDailyVolume3Month = Null,
       marketCap = Null,
       trailingPE = Null,
       epsTrailingTwelveMonths = Null,
       dividendYield = Null \<rparr>"

text \<open>The empty object \<open>{}\<close> that stands in for a missing metadata block.\<close>

definition emptyMeta :: meta where
  "emptyMeta =
     \<lparr> m_symbol = None, m_shortName = None, m_longName = None, m_currency = None,
       m_regularMarketPrice = Undefined, m_chartPreviousClose = Undefined,
       m_previousClose = Undefined, m_regularMarketDayLow = Undefined,
       m_regularMarketDayHigh = Undefined, m_fiftyTwoWeekLow = Undefined,
       m_fiftyTwoWeekHigh = Undefined, m_regularMarketVolume = Undefined,
       m_firstTradeDate = Undefined, m_regularMarketTime = Undefined,
       m_instrumentShortName = None, m_instrumentLongName = None \<rparr>"

text \<open>
  \<open>formatBasicQuote\<close>. On the values of this model nothing in its \<open>try\<close> block throws,
  so its \<open>catch\<close> branch is not reached.
\<close>

definition formatBasicQuote :: "runtime \<Rightarrow> chartResult \<Rightarrow> string \<Rightarrow> string" where
  "formatBasicQuote rt chartData ticker =
     (let m = (case meta chartData of Some m \<Rightarrow> m | None \<Rightarrow> emptyMeta);
          currentPrice = m_regularMarketPrice m;
          previousClose = m_previousClose m;
          change = jsub (toNumber (m_regularMarketPrice m)) (toNumber (m_previousClose m));
          changePercent = jmul (jdiv change (toNumber (m_previousClose m))) (Fin 100)
      in trim (nl @
           ''Symbol: '' @ ticker @ nl @
           ''Name: '' @ render (strOr (strOr (m_instrumentShortName m) (m_instrumentLongName m))
                                  (Some ticker)) @ nl @
           ''Price: $'' @ orElse (toLocaleStringOpt rt currentPrice) ''N/A'' @ nl @
           ''Change: $'' @ orElse (toFixedOpt (Num change)) ''N/A'' @
              '' ('' @ orElse (toFixedOpt (Num changePercent)) ''N/A'' @ ''%)'' @ nl @
           ''Previous Close: $'' @ orElse (toLocaleStringOpt rt previousClose) ''N/A'' @ nl @
           nl @
           ''Note: Full quote data is unavailable. Showing limited information from chart data.'' @
           nl))"

definition unableQuote :: "string \<Rightarrow> string" where
  "unableQuote ticker =
     ''Unable to retrieve data for symbol: '' @ ticker @
     ''. The ticker symbol may be invalid or Yahoo Finance data may be temporarily unavailable.''"

text \<open>
  \<open>fetchStockQuote\<close> at clock reading \<open>now\<close> (the model reads the clock once per
  call). The result is the returned text or the thrown error, with the rate-limit
  state and the network effects after the call. \<open>checkRateLimit\<close> stands before the
  \<open>try\<close>, so its error is not wrapped; everything thrown inside is.
\<close>

definition fetchStockQuote ::
  "runtime \<Rightarrow> transport \<Rightarrow> int \<Rightarrow> string \<Rightarrow> requestCount \<Rightarrow> net \<Rightarrow> (error + string) \<times> requestCount \<times> net" where
  "fetchStockQuote rt fetch now ticker rc n =
     (case checkRateLimit now rc of
        (Inl e, rc') \<Rightarrow> (Inl e, rc', n)
      | (Inr _, rc') \<Rightarrow>
          (case fetchWithRetry fetch (ChartUrl ticker (now div 1000 - 60) (now div 1000) ''1d'') 3 n of
             (Inl e, n') \<Rightarrow>
               (Inl (Error (''Failed to fetch stock quote: '' @ message e)), rc', n')
           | (Inr chartResponse, n') \<Rightarrow>
               if ok chartResponse then
                 (case body chartResponse of
                    BodyThrows msg \<Rightarrow>
                      (Inl (Error (''Failed to fetch stock quote: '' @ msg)), rc', n')
                  | NoResult \<Rightarrow> (Inr (unableQuote ticker), rc', n')
                  | Result result \<Rightarrow>
                      (case meta result of
                         Some m \<Rightarrow> (Inr (formatStockQuote rt (quoteData result m ticker)), rc', n')
                       | None \<Rightarrow> (Inr (formatBasicQuote rt result ticker), rc', n')))
               else (Inr (unableQuote ticker), rc', n')))"

section \<open>The market-data pipeline (index.ts, lines 321-387)\<close>

text \<open>The object pushed onto \<open>indexResults\<close> (lines 347-356).\<close>

definition indexRecord :: "string \<Rightarrow> meta \<Rightarrow> quote" where
  "indexRecord indexSymbol m =
     \<lparr> symbol = Some indexSymbol,
       shortName = strOr (strOr (m_shortName m) (m_longName m)) (Some indexSymbol),
       longName = None,
       regularMarketPrice = m_regularMarketPrice m,
       regularMarketChange =
         Num (jsub (toNumber (m_regularMarketPrice m)) (toNumber (m_chartPreviousClose m))),
       regularMarketChangePercent =
         Num (jdiv (jsub (toNumber (m_regularMarketPrice m)) (toNumber (m_chartPreviousClose m)))
                (toNumber (m_chartPreviousClose m))),
       regularMarketPreviousClose = m_chartPreviousClose m,
       regularMarketOpen = Undefined,
       regularMarketDayLow = m_regularMarketDayLow m,
       regularMarketDayHigh = m_regularMarketDayHigh m,
       fiftyTwoWeekLow = Undefined,
       fiftyTwoWeekHigh = Undefined,
       regularMarketVolume = Undefined,
       averageDailyVolume3Month = Undefined,
       marketCap = Undefined,
       trailingPE = Undefined,
       epsTrailingTwelveMonths = Undefined,
       dividendYield = Undefined \<rparr>"

text \<open>
  The body of the \<open>for\<close> loop for one index: the record it pushes, if any. A rejected
  fetch, a body that throws and a result without metadata (\<open>result.meta.shortName\<close>
  throws) all end in the inner \<open>catch\<close>, which logs and goes on.
\<close>

definition fetchIndex :: "transport \<Rightarrow> int \<Rightarrow> string \<Rightarrow> net \<Rightarrow> quote option \<times> net" where
  "fetchIndex fetch now indexSymbol n =
     (case fetchWithRetry fetch (ChartUrl indexSymbol (now div 1000 - 60) (now div 1000) ''1d'') 3 n of
        (Inl e, n') \<Rightarrow> (None, n')
      | (Inr chartResponse, n') \<Rightarrow>
          if ok chartResponse then
            (case body chartResponse of
               BodyThrows msg \<Rightarrow> (None, n')
             | NoResult \<Rightarrow> (None, n')
             | Result result \<Rightarrow>
                 (case meta result of
                    Some m \<Rightarrow> (Some (indexRecord indexSymbol m), n')
                  | None \<Rightarrow> (None, n')))
          else (None, n'))"

text \<open>The loop over \<open>indices\<close>, with the array \<open>indexResults\<close> as accumulator.\<close>

fun indexLoop :: "transport \<Rightarrow> int \<Rightarrow> string list \<Rightarrow> quote list \<Rightarrow> net \<Rightarrow> quote list \<times> net" where
  "indexLoop fetch now [] indexResults n = (indexResults, n)"
| "indexLoop fetch now (indexSymbol # rest) indexResults n =
     (case fetchIndex fetch now indexSymbol n of
        (Some r, n') \<Rightarrow> indexLoop fetch now rest (indexResults @ [r]) n'
      | (None, n') \<Rightarrow> indexLoop fetch now rest indexResults n')"

text \<open>The callback of \<open>indices.map\<close> in \<open>formatMarketData\<close>: the block of one index.\<close>

definition formatIndex :: "runtime \<Rightarrow> quote \<Rightarrow> string" where
  "formatIndex rt index =
     (let changePercent =
            (if truthy (regularMarketChangePercent index)
             then toFixed2 (jmul (toNumber (regularMarketChangePercent index)) (Fin 100)) @ ''%''
             else ''N/A'')
      in trim (nl @
           render (strOr (strOr (shortName index) (longName index)) (symbol index)) @ nl @
           ''Price: '' @ orElse (toLocaleStringOpt rt (regularMarketPrice index)) ''N/A'' @ nl @
           ''Change: '' @ orElse (toLocaleStringOpt rt (regularMarketChange index)) ''N/A'' @
              '' ('' @ changePercent @ '')'' @ nl @
           ''Previous Close: '' @
              orElse (toLocaleStringOpt rt (regularMarketPreviousClose index)) ''N/A'' @ nl @
           ''Day Range: '' @ orElse (toLocaleStringOpt rt (regularMarketDayLow index)) ''N/A'' @
              '' - '' @ orElse (toLocaleStringOpt rt (regularMarketDayHigh index)) ''N/A'' @ nl))"

definition formatMarketData :: "runtime \<Rightarrow> quote list \<Rightarrow> string" where
  "formatMarketData rt indices = join (nl @ nl) (map (formatIndex rt) indices)"

definition unableMarketData :: string where
  "unableMarketData =
     ''Unable to retrieve market data. Yahoo Finance data may be temporarily unavailable.''"

definition defaultIndices :: "string list" where
  "defaultIndices = [''^GSPC'', ''^DJI'', ''^IXIC'']"

text \<open>
  \<open>fetchMarketData\<close>. Every failure of the loop is caught inside it and
  \<open>formatMarketData\<close> does not throw on the values of this model, so the outer \<open>catch\<close>
  is not reached.
\<close>

definition fetchMarketData ::
  "runtime \<Rightarrow> transport \<Rightarrow> int \<Rightarrow> string list \<Rightarrow> requestCount \<Rightarrow> net \<Rightarrow> (error + string) \<times> requestCount \<times> net" where
  "fetchMarketData rt fetch now indices rc n =
     (case checkRateLimit now rc of
        (Inl e, rc') \<Rightarrow> (Inl e, rc', n)
      | (Inr _, rc') \<Rightarrow>
          (case indexLoop fetch now indices [] n of
             (indexResults, n') \<Rightarrow>
               if length indexResults > 0
               then (Inr (formatMarketData rt indexResults), rc', n')
               else (Inr unableMarketData, rc', n')))"

section \<open>The history pipeline (index.ts, lines 389-535)\<close>

definition validPeriods :: "string list" where
  "validPeriods =
     [''1d'', ''5d'', ''1mo'', ''3mo'', ''6mo'', ''1y'', ''2y'', ''5y'', ''10y'', ''ytd'', ''max'']"

definition validIntervals :: "string list" where
  "validIntervals =
     [''1m'', ''2m'', ''5m'', ''15m'', ''30m'', ''60m'', ''90m'', ''1h'', ''1d'', ''5d'', ''1wk'',
      ''1mo'', ''3mo'']"

definition invalidPeriod :: "string \<Rightarrow> string" where
  "invalidPeriod period =
     ''Invalid period: '' @ period @ ''. Valid periods are: '' @ join '', '' validPeriods"

definition invalidInterval :: "string \<Rightarrow> string" where
  "invalidInterval interval =
     ''Invalid interval: '' @ interval @ ''. Valid intervals are: '' @ join '', '' validIntervals"

text \<open>The \<open>switch\<close> that turns the period into \<open>period1\<close>, in seconds.\<close>

definition period1 :: "runtime \<Rightarrow> int \<Rightarrow> string \<Rightarrow> int \<Rightarrow> int" where
  "period1 rt now period period2 =
     (if period = ''1d'' then period2 - 86400
      else if period = ''5d'' then period2 - 5 * 86400
      else if period = ''1mo'' then period2 - 30 * 86400
      else if period = ''3mo'' then period2 - 90 * 86400
      else if period = ''6mo'' then period2 - 180 * 86400
      else if period = ''1y'' then period2 - 365 * 86400
      else if period = ''2y'' then period2 - 2 * 365 * 86400
      else if period = ''5y'' then period2 - 5 * 365 * 86400
      else if period = ''10y'' then period2 - 10 * 365 * 86400
      else if period = ''ytd'' then startOfYear rt now div 1000
      else if period = ''max'' then 0
      else period2 - 30 * 86400)"

definition maxPoints :: nat where
  "maxPoints = 10"

text \<open>\<open>step\<close>, from \<open>timestamps.length\<close>.\<close>

definition step :: "nat \<Rightarrow> nat" where
  "step len = max 1 (len div maxPoints)"

text \<open>One line of the table: the body of the \<open>for\<close> loop at index \<open>i\<close>.\<close>

definition tableRow :: "runtime \<Rightarrow> chartResult \<Rightarrow> nat \<Rightarrow> string" where
  "tableRow rt historyData i =
     (let date = toLocaleDateString rt (jmul (toNumber (atIdx (timestamp historyData) i)) (Fin 1000));
          opn = orElse (toFixedOpt (atIdx (q_open historyData) i)) ''N/A'';
          high = orElse (toFixedOpt (atIdx (q_high historyData) i)) ''N/A'';
          low = orElse (toFixedOpt (atIdx (q_low historyData) i)) ''N/A'';
          close = orElse (toFixedOpt (atIdx (q_close historyData) i)) ''N/A'';
          volume = orElse (toLocaleStringOpt rt (atIdx (q_volume historyData) i)) ''N/A''
      in padEnd date 11 @ '' | $'' @ padEnd opn 8 @ '' | $'' @ padEnd high 8 @ '' | $'' @
         padEnd low 8 @ '' | $'' @ padEnd close 8 @ '' | '' @ volume @ nl)"

text \<open>
  The loop \<open>for (let i = 0; i < timestamps.length; i += step)\<close>, from index \<open>i\<close> on:
  the lines it appends to \<open>result\<close>, in order.
\<close>

function tableRows :: "runtime \<Rightarrow> chartResult \<Rightarrow> nat \<Rightarrow> string list" where
  "tableRows rt historyData i =
     (if i < length (timestamp historyData)
      then tableRow rt historyData i #
           tableRows rt historyData (i + step (length (timestamp historyData)))
      else [])"
  by pat_completeness auto
termination
  by (relation "measure (\<lambda>(rt, historyData, i). length (timestamp historyData) - i)")
     (auto simp: step_def)

text \<open>The summary (lines 516-529): what is appended after the table.\<close>

definition summary :: "chartResult \<Rightarrow> string" where
  "summary historyData =
     (if length (timestamp historyData) > 0 then
        (let firstIndex = 0;
             lastIndex = length (timestamp historyData) - 1;
             firstClose = atIdx (q_close historyData) firstIndex;
             lastClose = atIdx (q_close historyData) lastIndex
         in if firstClose \<noteq> Undefined \<and> lastClose \<noteq> Undefined then
              (let change = jsub (toNumber lastClose) (toNumber firstClose);
                   percentChange = jmul (jdiv change (toNumber firstClose)) (Fin 100)
               in nl @ ''Price Change: $'' @ toFixed2 change @
                  '' ('' @ toFixed2 percentChange @ ''%)'')
            else [])
      else [])"

text \<open>
  \<open>formatStockHistory\<close>: the header lines (lines 477-501), the lines of the table and
  the summary. On the values of this model nothing in its \<open>try\<close> block throws, so
  its \<open>catch\<close> branch is not reached.
\<close>

definition historyHeader :: "runtime \<Rightarrow> chartResult \<Rightarrow> string \<Rightarrow> string \<Rightarrow> string \<Rightarrow> string" where
  "historyHeader rt historyData ticker period interval =
     (let m = (case meta historyData of Some m \<Rightarrow> m | None \<Rightarrow> emptyMeta);
          currency = render (strOr (m_currency m) (Some ''USD''))
      in ''Historical data for '' @ ticker @ '' ('' @ period @ '', '' @ interval @
           '' intervals)'' @ nl @
         ''Currency: '' @ currency @ nl @
         (if truthy (m_firstTradeDate m) \<and> truthy (m_regularMarketTime m)
          then ''Trading Period: '' @
               toLocaleDateString rt (jmul (toNumber (m_firstTradeDate m)) (Fin 1000)) @
               '' to '' @
               toLocaleDateString rt (jmul (toNumber (m_regularMarketTime m)) (Fin 1000)) @
               nl @ nl
          else nl) @
         ''Date       | Open     | High     | Low      | Close    | Volume'' @ nl @
         ''-----------|----------|----------|----------|----------|------------'' @ nl)"

definition formatStockHistory :: "runtime \<Rightarrow> chartResult \<Rightarrow> string \<Rightarrow> string \<Rightarrow> string \<Rightarrow> string" where
  "formatStockHistory rt historyData ticker period interval =
     historyHeader rt historyData ticker period interval @
     concat (tableRows rt historyData 0) @
     summary historyData"

text \<open>
  \<open>fetchStockHistory\<close>. \<open>checkRateLimit\<close> stands before the \<open>try\<close>; every error thrown
  inside the \<open>try\<close> is caught and thrown again with the prefix.
\<close>

definition failedHistory :: "string \<Rightarrow> error" where
  "failedHistory msg = Error (''Failed to fetch stock history: '' @ msg)"

definition fetchStockHistory ::
  "runtime \<Rightarrow> transport \<Rightarrow> int \<Rightarrow> string \<Rightarrow> string \<Rightarrow> string \<Rightarrow> requestCount \<Rightarrow> net \<Rightarrow> (error + string) \<times> requestCount \<times> net" where
  "fetchStockHistory rt fetch now ticker period interval rc n =
     (case checkRateLimit now rc of
        (Inl e, rc') \<Rightarrow> (Inl e, rc', n)
      | (Inr _, rc') \<Rightarrow>
          if period \<notin> set validPeriods then (Inl (failedHistory (invalidPeriod period)), rc', n)
          else if interval \<notin> set validIntervals
          then (Inl (failedHistory (invalidInterval interval)), rc', n)
          else
            (let period2 = now div 1000;
                 u = ChartUrl ticker (period1 rt now period period2) period2 interval
             in case fetchWithRetry fetch u 3 n of
                  (Inl e, n') \<Rightarrow> (Inl (failedHistory (message e)), rc', n')
                | (Inr resp, n') \<Rightarrow>
                    if \<not> ok resp
                    then (Inl (failedHistory (''API error: '' @ showNat (status resp) @ '' '' @
                                              statusText resp)), rc', n')
                    else
                      (case body resp of
                         BodyThrows msg \<Rightarrow> (Inl (failedHistory msg), rc', n')
                       | NoResult \<Rightarrow>
                           (Inr (''No historical data found for symbol: '' @ ticker), rc', n')
                       | Result result \<Rightarrow>
                           (Inr (formatStockHistory rt result ticker period interval), rc', n'))))"

section \<open>A concrete runtime: locale en-US, time zone UTC\<close>

text \<open>
  The properties below hold for every runtime; this one serves to evaluate the code on
  concrete inputs. Numbers print with at most three fraction digits (ties away from
  zero) and the integer part in groups of three; dates print as month/day/year of the
  proleptic Gregorian calendar (years from 1 on). The rounding is that of the exact
  rational, where JavaScript rounds the shortest decimal of the double: the two differ
  on ties such as 1.0005, and the inputs evaluated below have none.
\<close>

function groupDigits :: "string \<Rightarrow> string" where
  "groupDigits s =
     (if length s \<le> 3 then s
      else groupDigits (take (length s - 3) s) @ '','' @ drop (length s - 3) s)"
  by pat_completeness auto
termination
  by (relation "measure length") auto

definition dropTrailingZeros :: "string \<Rightarrow> string" where
  "dropTrailingZeros s = rev (dropWhile (\<lambda>c. c = CHR ''0'') (rev s))"

fun enUSNumber :: "jsnum \<Rightarrow> string" where
  "enUSNumber NaN = ''NaN''"
| "enUSNumber PosInf = [CHR 0xE2, CHR 0x88, CHR 0x9E]"
| "enUSNumber NegInf = [CHR ''-'', CHR 0xE2, CHR 0x88, CHR 0x9E]"
| "enUSNumber (Fin q) =
     (let n = \<lfloor>\<bar>q\<bar> * 1000 + 1 / 2\<rfloor>;
          frac = dropTrailingZeros
                   [digit (n mod 1000 div 100), digit (n mod 100 div 10), digit (n mod 10)]
      in (if q < 0 then ''-'' else []) @ groupDigits (showDigits (n div 1000)) @
         (if frac = [] then [] else ''.'' @ frac))"

text \<open>
  Year, month and day of a day number counted from 1970-01-01, and the day number of
  the first of January of a year.
\<close>

definition civilFromDays :: "int \<Rightarrow> int \<times> int \<times> int" where
  "civilFromDays z0 =
     (let z = z0 + 719468;
          era = z div 146097;
          doe = z - era * 146097;
          yoe = (doe - doe div 1460 + doe div 36524 - doe div 146096) div 365;
          doy = doe - (365 * yoe + yoe div 4 - yoe div 100);
          mp = (5 * doy + 2) div 153;
          d = doy - (153 * mp + 2) div 5 + 1;
          m = (if mp < 10 then mp + 3 else mp - 9)
      in (yoe + era * 400 + (if m \<le> 2 then 1 else 0), m, d))"

definition daysOfNewYear :: "int \<Rightarrow> int" where
  "daysOfNewYear y =
     (let y1 = y - 1;
          era = y1 div 400;
          yoe = y1 - era * 400
      in era * 146097 + (yoe * 365 + yoe div 4 - yoe div 100 + 306) - 719468)"

fun utcDate :: "jsnum \<Rightarrow> string" where
  "utcDate (Fin q) =
     (if \<bar>q\<bar> \<le> 8640000000000000
      then (case civilFromDays ((if 0 \<le> q then \<lfloor>q\<rfloor> else \<lceil>q\<rceil>) div 86400000) of
              (y, m, d) \<Rightarrow> showDigits m @ ''/'' @ showDigits d @ ''/'' @ showDigits y)
      else ''Invalid Date'')"
| "utcDate _ = ''Invalid Date''"

definition utcStartOfYear :: "int \<Rightarrow> int" where
  "utcStartOfYear now =
     (case civilFromDays (now div 86400000) of
        (y, m, d) \<Rightarrow> daysOfNewYear y * 86400000)"

definition enUS :: runtime where
  "enUS = \<lparr> toLocaleString = enUSNumber, toLocaleDateString = utcDate,
            startOfYear = utcStartOfYear \<rparr>"

section \<open>Notions used in the properties\<close>

text \<open>
  For the retry loop: an outcome that makes the loop go round again, the waits of the
  first \<open>k\<close> attempts, and the error of the last rejected call among a list of
  outcomes.
\<close>

definition retriable :: "outcome \<Rightarrow> bool" where
  "retriable x = (case x of Rejects e \<Rightarrow> True | Responds r \<Rightarrow> status r = 429)"

definition backoffs :: "nat \<Rightarrow> nat list" where
  "backoffs k = map (\<lambda>attempt. 2 ^ attempt * 1000) [0..<k]"

fun lastRejection :: "outcome list \<Rightarrow> error option" where
  "lastRejection [] = None"
| "lastRejection (x # xs) =
     (case lastRejection xs of
        Some e \<Rightarrow> Some e
      | None \<Rightarrow> (case x of Rejects e \<Rightarrow> Some e | Responds r \<Rightarrow> None))"

text \<open>
  For the table of the history: the data of one point of the series (the values the six
  arrays hold at index \<open>i\<close>), and the number of lines of a table over \<open>len\<close> points.
\<close>

definition point :: "chartResult \<Rightarrow> nat \<Rightarrow> jsval \<times> jsval \<times> jsval \<times> jsval \<times> jsval \<times> jsval" where
  "point historyData i =
     (atIdx (timestamp historyData) i, atIdx (q_open historyData) i,
      atIdx (q_high historyData) i, atIdx (q_low historyData) i,
      atIdx (q_close historyData) i, atIdx (q_volume historyData) i)"

definition rowCount :: "nat \<Rightarrow> nat" where
  "rowCount len = (len + step len - 1) div step len"

text \<open>
  For the batch of indices: what the loop body yields for each index in turn, with the
  network effects threaded from one index to the next, and the records among these
  outcomes.
\<close>

fun indexOutcomes :: "transport \<Rightarrow> int \<Rightarrow> string list \<Rightarrow> net \<Rightarrow> quote option list" where
  "indexOutcomes fetch now [] n = []"
| "indexOutcomes fetch now (indexSymbol # rest) n =
     (case fetchIndex fetch now indexSymbol n of
        (r, n') \<Rightarrow> r # indexOutcomes fetch now rest n')"

definition successes :: "quote option list \<Rightarrow> quote list" where
  "successes rs = concat (map (\<lambda>r. case r of Some q \<Rightarrow> [q] | None \<Rightarrow> []) rs)"

text \<open>
  The request of a quote snapshot, shared by the quote pipeline and the loop body of
  the batch, and the network effects after the loop body has run for each index of a
  list in turn: one \<open>fetchWithRetry\<close> for each index, from the state the one before
  it left.
\<close>

definition snapshotUrl :: "int \<Rightarrow> string \<Rightarrow> url" where
  "snapshotUrl now s = ChartUrl s (now div 1000 - 60) (now div 1000) ''1d''"

definition netAfter :: "transport \<Rightarrow> int \<Rightarrow> string list \<Rightarrow> net \<Rightarrow> net" where
  "netAfter fetch now indices n =
     fold (\<lambda>s m. snd (fetchWithRetry fetch (snapshotUrl now s) 3 m)) indices n"

section \<open>Inputs for evaluation\<close>

text \<open>
  The state of the rate limiter of a process started at time 0, and the network
  effects before any call.
\<close>

definition rc0 :: requestCount where
  "rc0 = \<lparr>minute = 0, day = 0, lastMinuteReset = 0, lastDayReset = 0\<rparr>"

definition net0 :: net where
  "net0 = \<lparr>fetchCount = 0, waits = []\<rparr>"

text \<open>
  The clock readings of \<open>w\<close> bursts of 20 calls, 60.001 seconds apart: 500 calls in 25
  minutes when \<open>w\<close> is 25.
\<close>

definition bursts :: "nat \<Rightarrow> int list" where
  "bursts w = concat (map (\<lambda>j. replicate 20 (int j * 60001)) [0..<w])"

text \<open>
  Networks: one that answers every call with the same response, one whose first two
  calls are rejected and whose later calls answer 200, one that always answers 429;
  the answer 404, and the answer 200 with a metadata block that has a price of 5000 and
  a previous close of 4950.
\<close>

definition answers :: "response \<Rightarrow> transport" where
  "answers r k u = Responds r"

definition failTwiceThenOk :: transport where
  "failTwiceThenOk k u =
     (if k < 2 then Rejects (Error ''ECONNRESET'')
      else Responds \<lparr>status = 200, statusText = ''OK'', body = NoResult\<rparr>)"

definition always429 :: transport where
  "always429 k u = Responds \<lparr>status = 429, statusText = ''Too Many Requests'', body = NoResult\<rparr>"

definition notFound :: response where
  "notFound = \<lparr>status = 404, statusText = ''Not Found'', body = NoResult\<rparr>"

definition indexMeta :: meta where
  "indexMeta =
     emptyMeta\<lparr> m_regularMarketPrice := Num (Fin 5000), m_chartPreviousClose := Num (Fin 4950),
                m_regularMarketDayLow := Num (Fin 4900), m_regularMarketDayHigh := Num (Fin 5010) \<rparr>"

definition indexAnswer :: response where
  "indexAnswer =
     \<lparr> status = 200, statusText = ''OK'',
       body = Result \<lparr> meta = Some indexMeta, timestamp = [], q_open = [], q_high = [],
                       q_low = [], q_close = [], q_volume = [] \<rparr> \<rparr>"

text \<open>
  A network on which \<open>^GSPC\<close> and \<open>^IXIC\<close> are answered with the metadata block,
  \<open>^DJI\<close> is rejected, \<open>^RUT\<close> is answered 404 and \<open>^VIX\<close> is answered 200 without a
  result, and a list of these five indices.
\<close>

definition mixedNet :: transport where
  "mixedNet k u =
     (case u of ChartUrl s p1 p2 i \<Rightarrow>
        if s = ''^DJI'' then Rejects (Error ''ECONNRESET'')
        else if s = ''^RUT'' then Responds notFound
        else if s = ''^VIX'' then Responds \<lparr>status = 200, statusText = ''OK'', body = NoResult\<rparr>
        else Responds indexAnswer)"

definition fiveIndices :: "string list" where
  "fiveIndices = [''^GSPC'', ''^DJI'', ''^RUT'', ''^VIX'', ''^IXIC'']"

text \<open>
  Payloads: a series of \<open>len\<close> daily points whose opening and closing prices are the
  index, a series of two points whose first closing price is the JSON \<open>null\<close>, and a
  result whose metadata block carries the symbol and no price.
\<close>

definition series :: "nat \<Rightarrow> chartResult" where
  "series len =
     \<lparr> meta = None,
       timestamp = map (\<lambda>i. Num (Fin (of_nat (i * 86400)))) [0..<len],
       q_open = map (\<lambda>i. Num (Fin (of_nat i))) [0..<len],
       q_high = [],
       q_low = [],
       q_close = map (\<lambda>i. Num (Fin (of_nat i))) [0..<len],
       q_volume = [] \<rparr>"

definition nullCloseSeries :: chartResult where
  "nullCloseSeries =
     \<lparr> meta = None,
       timestamp = [Num (Fin 1700000000), Num (Fin 1700086400)],
       q_open = [], q_high = [], q_low = [],
       q_close = [Null, Num (Fin 10)],
       q_volume = [] \<rparr>"

definition noPrices :: chartResult where
  "noPrices =
     \<lparr> meta = Some (emptyMeta\<lparr>m_symbol := Some ''AAPL''\<rparr>),
       timestamp = [], q_open = [], q_high = [], q_low = [], q_close = [], q_volume = [] \<rparr>"

section \<open>Properties of the rate limiter\<close>

lemma checkRateLimit_in_window_ok:
  assumes "t - lastMinuteReset rc \<le> 60000" "minute rc < 20"
    and "(if t - lastDayReset rc > 86400000 then 0 else day rc) < 500"
  shows "fst (checkRateLimit t rc) = Inr ()"
    and "minute (snd (checkRateLimit t rc)) = minute rc + 1"
    and "day (snd (checkRateLimit t rc)) = (if t - lastDayReset rc > 86400000 then 0 else day rc) + 1"
    and "lastMinuteReset (snd (checkRateLimit t rc)) = lastMinuteReset rc"
  using assms by (auto simp: checkRateLimit_def perMinute_def perDay_def Let_def split: if_splits)

lemma checkRateLimit_in_window_full:
  assumes "t - lastMinuteReset rc \<le> 60000" "minute rc \<ge> 20"
  shows "fst (checkRateLimit t rc) = Inl RateLimitExceeded"
    and "minute (snd (checkRateLimit t rc)) = minute rc"
    and "day (snd (checkRateLimit t rc)) = (if t - lastDayReset rc > 86400000 then 0 else day rc)"
    and "lastMinuteReset (snd (checkRateLimit t rc)) = lastMinuteReset rc"
  using assms by (auto simp: checkRateLimit_def perMinute_def perDay_def Let_def)

lemma calls_length: "length (calls ts rc) = length ts"
  by (induction ts arbitrary: rc) (auto split: prod.splits)

lemma calls_window:
  assumes "\<forall>t\<in>set ts. t - lastMinuteReset rc \<le> 60000"
    and "minute rc \<le> 20" and "day rc + (20 - minute rc) \<le> 500" and "i < length ts"
  shows "windowCall (minute rc + i) (ts ! i) (calls ts rc ! i)"
  using assms
proof (induction ts arbitrary: rc i)
  case Nil
  then show ?case by simp
next
  case (Cons t ts)
  obtain r rc' where step: "checkRateLimit t rc = (r, rc')"
    by (cases "checkRateLimit t rc")
  have win: "t - lastMinuteReset rc \<le> 60000"
    using Cons.prems(1) by simp
  have rest: "windowCall (minute rc' + j) (ts ! j) (calls ts rc' ! j)"
    if "lastMinuteReset rc' = lastMinuteReset rc" "minute rc' \<le> 20"
      "day rc' + (20 - minute rc') \<le> 500" "i = Suc j" for j
  proof (rule Cons.IH)
    show "\<forall>t\<in>set ts. t - lastMinuteReset rc' \<le> 60000"
      using Cons.prems(1) that(1) by simp
    show "minute rc' \<le> 20" by (rule that(2))
    show "day rc' + (20 - minute rc') \<le> 500" by (rule that(3))
    show "j < length ts" using Cons.prems(4) that(4) by simp
  qed
  show ?case
  proof (cases "minute rc < 20")
    case True
    have d: "(if t - lastDayReset rc > 86400000 then 0 else day rc) < 500"
      using Cons.prems(3) True by (auto split: if_splits)
    note ok = checkRateLimit_in_window_ok [OF win True d]
    show ?thesis
    proof (cases i)
      case 0
      then show ?thesis using ok step True by (simp add: windowCall_def)
    next
      case (Suc j)
      have m: "minute rc' = minute rc + 1" using ok(2) step by simp
      have "windowCall (minute rc' + j) (ts ! j) (calls ts rc' ! j)"
      proof (rule rest)
        show "lastMinuteReset rc' = lastMinuteReset rc" using ok(4) step by simp
        show "minute rc' \<le> 20" using m True by simp
        show "day rc' + (20 - minute rc') \<le> 500"
          using ok(3) m step True Cons.prems(3) by (auto split: if_splits)
        show "i = Suc j" by (rule Suc)
      qed
      moreover have "minute rc' + j = minute rc + i" using m Suc by simp
      moreover have "calls (t # ts) rc ! i = calls ts rc' ! j" using step Suc by simp
      moreover have "(t # ts) ! i = ts ! j" using Suc by simp
      ultimately show ?thesis by simp
    qed
  next
    case False
    then have full: "minute rc \<ge> 20" by simp
    note no = checkRateLimit_in_window_full [OF win full]
    show ?thesis
    proof (cases i)
      case 0
      then show ?thesis using no step False Cons.prems(2) by (simp add: windowCall_def)
    next
      case (Suc j)
      have m: "minute rc' = minute rc" using no(2) step by simp
      have "windowCall (minute rc' + j) (ts ! j) (calls ts rc' ! j)"
      proof (rule rest)
        show "lastMinuteReset rc' = lastMinuteReset rc" using no(4) step by simp
        show "minute rc' \<le> 20" using m Cons.prems(2) by simp
        show "day rc' + (20 - minute rc') \<le> 500"
          using no(3) m step full Cons.prems(2,3) by (auto split: if_splits)
        show "i = Suc j" by (rule Suc)
      qed
      then have "windowCall (minute rc + j) (ts ! j) (calls ts rc' ! j)" using m by simp
      then have "windowCall (minute rc + i) (ts ! j) (calls ts rc' ! j)"
        using full Cons.prems(2) by (simp add: windowCall_def split: prod.splits)
      moreover have "calls (t # ts) rc ! i = calls ts rc' ! j" using step Suc by simp
      moreover have "(t # ts) ! i = ts ! j" using Suc by simp
      ultimately show ?thesis by simp
    qed
  qed
qed

text \<open>
  C1 (as amended). Take a state in which at most 20 calls have been counted in the
  minute window and the day counter leaves room for the calls still allowed in it, and
  a sequence of calls none of which comes more than 60 seconds after the window start.
  Then the calls succeed and increment both counters (the day counter from 0 when its
  own window has just been reset) until 20 calls are counted in the window - the first
  20 calls of a fresh limiter - and every later call, the 21st first, fails with the
  rate-limit error and increments neither counter. A call more than 60 seconds after
  the window start resets the minute counter and, when the day counter is then below
  500, succeeds and leaves the minute counter at 1.
\<close>

theorem rate_limit_minute_window:
  "(minute rc \<le> 20 \<and> day rc + (20 - minute rc) \<le> 500 \<and>
    (\<forall>t\<in>set ts. t - lastMinuteReset rc \<le> 60000) \<longrightarrow>
      (\<forall>i<length ts. case calls ts rc ! i of (b, r, a) \<Rightarrow>
         if minute rc + i < 20
         then minute b = minute rc + i \<and> r = Inr () \<and> minute a = minute rc + i + 1 \<and>
              day a = (if ts ! i - lastDayReset b > 86400000 then 0 else day b) + 1
         else minute b = 20 \<and> r = Inl RateLimitExceeded \<and> minute a = 20 \<and>
              day a = (if ts ! i - lastDayReset b > 86400000 then 0 else day b))) \<and>
   (now - lastMinuteReset rc > 60000 \<and>
    (if now - lastDayReset rc > 86400000 then 0 else day rc) < 500 \<longrightarrow>
      fst (checkRateLimit now rc) = Inr () \<and>
      minute (snd (checkRateLimit now rc)) = 1 \<and>
      lastMinuteReset (snd (checkRateLimit now rc)) = now)"
proof (intro conjI impI allI)
  fix i
  assume pre: "minute rc \<le> 20 \<and> day rc + (20 - minute rc) \<le> 500 \<and>
    (\<forall>t\<in>set ts. t - lastMinuteReset rc \<le> 60000)"
    and i: "i < length ts"
  have "windowCall (minute rc + i) (ts ! i) (calls ts rc ! i)"
    using pre i by (intro calls_window) auto
  then show "case calls ts rc ! i of (b, r, a) \<Rightarrow>
         if minute rc + i < 20
         then minute b = minute rc + i \<and> r = Inr () \<and> minute a = minute rc + i + 1 \<and>
              day a = (if ts ! i - lastDayReset b > 86400000 then 0 else day b) + 1
         else minute b = 20 \<and> r = Inl RateLimitExceeded \<and> minute a = 20 \<and>
              day a = (if ts ! i - lastDayReset b > 86400000 then 0 else day b)"
    by (auto simp: windowCall_def split: prod.splits)
next
  assume "now - lastMinuteReset rc > 60000 \<and>
    (if now - lastDayReset rc > 86400000 then 0 else day rc) < 500"
  then show "fst (checkRateLimit now rc) = Inr ()"
    and "minute (snd (checkRateLimit now rc)) = 1"
    and "lastMinuteReset (snd (checkRateLimit now rc)) = now"
    by (auto simp: checkRateLimit_def perMinute_def perDay_def Let_def split: if_splits)
qed

text \<open>
  A fresh limiter at time 0 and 21 calls one second later: the first and the twentieth
  succeed, the 21st fails; a call after 70 seconds succeeds with the counter at 1.
\<close>

theorem rate_limit_minute_window_witness:
  "fst (snd (calls (replicate 21 1000) \<lparr>minute = 0, day = 0, lastMinuteReset = 0, lastDayReset = 0\<rparr> ! 0)) = Inr () \<and>
   minute (snd (snd (calls (replicate 21 1000) \<lparr>minute = 0, day = 0, lastMinuteReset = 0, lastDayReset = 0\<rparr> ! 0))) = 1 \<and>
   fst (snd (calls (replicate 21 1000) \<lparr>minute = 0, day = 0, lastMinuteReset = 0, lastDayReset = 0\<rparr> ! 19)) = Inr () \<and>
   minute (snd (snd (calls (replicate 21 1000) \<lparr>minute = 0, day = 0, lastMinuteReset = 0, lastDayReset = 0\<rparr> ! 19))) = 20 \<and>
   fst (snd (calls (replicate 21 1000) \<lparr>minute = 0, day = 0, lastMinuteReset = 0, lastDayReset = 0\<rparr> ! 20)) = Inl RateLimitExceeded \<and>
   minute (snd (snd (calls (replicate 21 1000) \<lparr>minute = 0, day = 0, lastMinuteReset = 0, lastDayReset = 0\<rparr> ! 20))) = 20 \<and>
   fst (checkRateLimit 70000 \<lparr>minute = 20, day = 20, lastMinuteReset = 0, lastDayReset = 0\<rparr>) = Inr () \<and>
   minute (snd (checkRateLimit 70000 \<lparr>minute = 20, day = 20, lastMinuteReset = 0, lastDayReset = 0\<rparr>)) = 1"
proof -
  let ?rc = "\<lparr>minute = 0, day = 0, lastMinuteReset = 0, lastDayReset = 0\<rparr>"
  let ?ts = "replicate 21 (1000::int)"
  have pre: "minute ?rc \<le> 20 \<and> day ?rc + (20 - minute ?rc) \<le> 500 \<and>
    (\<forall>t\<in>set ?ts. t - lastMinuteReset ?rc \<le> 60000)"
    by simp
  have all: "\<forall>i<length ?ts. case calls ?ts ?rc ! i of (b, r, a) \<Rightarrow>
         if minute ?rc + i < 20
         then minute b = minute ?rc + i \<and> r = Inr () \<and> minute a = minute ?rc + i + 1 \<and>
              day a = (if ?ts ! i - lastDayReset b > 86400000 then 0 else day b) + 1
         else minute b = 20 \<and> r = Inl RateLimitExceeded \<and> minute a = 20 \<and>
              day a = (if ?ts ! i - lastDayReset b > 86400000 then 0 else day b)"
    by (rule rate_limit_minute_window [of ?rc ?ts 0, THEN conjunct1, THEN mp, OF pre])
  have later: "fst (checkRateLimit 70000 \<lparr>minute = 20, day = 20, lastMinuteReset = 0, lastDayReset = 0\<rparr>) = Inr () \<and>
      minute (snd (checkRateLimit 70000 \<lparr>minute = 20, day = 20, lastMinuteReset = 0, lastDayReset = 0\<rparr>)) = 1"
    using rate_limit_minute_window
      [of "\<lparr>minute = 20, day = 20, lastMinuteReset = 0, lastDayReset = 0\<rparr>" "[]" 70000]
    by simp
  have c0: "fst (snd (calls ?ts ?rc ! 0)) = Inr () \<and> minute (snd (snd (calls ?ts ?rc ! 0))) = 1"
    using all [rule_format, of 0] by (simp split: prod.splits)
  have c19: "fst (snd (calls ?ts ?rc ! 19)) = Inr () \<and> minute (snd (snd (calls ?ts ?rc ! 19))) = 20"
    using all [rule_format, of 19] by (simp split: prod.splits)
  have c20: "fst (snd (calls ?ts ?rc ! 20)) = Inl RateLimitExceeded \<and> minute (snd (snd (calls ?ts ?rc ! 20))) = 20"
    using all [rule_format, of 20] by (simp split: prod.splits)
  show ?thesis
    using c0 c19 c20 later by blast
qed

lemma runCalls_append:
  "runCalls (xs @ ys) rc =
     (case runCalls xs rc of
        (a, rc') \<Rightarrow> (case runCalls ys rc' of (b, rc'') \<Rightarrow> (a \<and> b, rc'')))"
  by (induction xs arbitrary: rc) (auto split: prod.splits)

lemma runCalls_in_window:
  assumes "t - lastMinuteReset rc \<le> 60000" and "t - lastDayReset rc \<le> 86400000"
    and "minute rc + k \<le> 20" and "day rc + k \<le> 500"
  shows "runCalls (replicate k t) rc = (True, rc\<lparr>minute := minute rc + k, day := day rc + k\<rparr>)"
  using assms
proof (induction k arbitrary: rc)
  case 0
  then show ?case by simp
next
  case (Suc k)
  let ?rc1 = "rc\<lparr>minute := minute rc + 1, day := day rc + 1\<rparr>"
  have step: "checkRateLimit t rc = (Inr (), ?rc1)"
    using Suc.prems by (simp add: checkRateLimit_def perMinute_def perDay_def)
  have "runCalls (replicate k t) ?rc1 =
      (True, ?rc1\<lparr>minute := minute ?rc1 + k, day := day ?rc1 + k\<rparr>)"
    using Suc.prems by (intro Suc.IH) simp_all
  then show ?case using step by simp
qed

lemma runCalls_new_window:
  assumes "t - lastMinuteReset rc > 60000" and "t - lastDayReset rc \<le> 86400000"
    and "day rc + 20 \<le> 500"
  shows "runCalls (replicate 20 t) rc =
           (True, rc\<lparr>minute := 20, day := day rc + 20, lastMinuteReset := t\<rparr>)"
proof -
  let ?rc1 = "rc\<lparr>minute := 1, day := day rc + 1, lastMinuteReset := t\<rparr>"
  have step: "checkRateLimit t rc = (Inr (), ?rc1)"
    using assms by (simp add: checkRateLimit_def perMinute_def perDay_def)
  have "runCalls (replicate 19 t) ?rc1 =
      (True, ?rc1\<lparr>minute := minute ?rc1 + 19, day := day ?rc1 + 19\<rparr>)"
    using assms by (intro runCalls_in_window) simp_all
  moreover have "replicate 20 t = t # replicate 19 t"
    by (simp add: numeral_eq_Suc)
  ultimately show ?thesis using step by simp
qed

lemma runCalls_bursts:
  "w < 25 \<Longrightarrow>
   runCalls (bursts (Suc w)) rc0 =
     (True, \<lparr>minute = 20, day = 20 * Suc w, lastMinuteReset = int w * 60001, lastDayReset = 0\<rparr>)"
proof (induction w)
  case 0
  have "runCalls (replicate 20 0) rc0 = (True, rc0\<lparr>minute := minute rc0 + 20, day := day rc0 + 20\<rparr>)"
    by (intro runCalls_in_window) (simp_all add: rc0_def)
  then show ?case by (simp add: bursts_def rc0_def)
next
  case (Suc w)
  let ?rc = "\<lparr>minute = 20, day = 20 * Suc w, lastMinuteReset = int w * 60001, lastDayReset = 0\<rparr>"
  have before: "runCalls (bursts (Suc w)) rc0 = (True, ?rc)"
    using Suc by simp
  have "runCalls (replicate 20 (int (Suc w) * 60001)) ?rc =
      (True, ?rc\<lparr>minute := 20, day := day ?rc + 20, lastMinuteReset := int (Suc w) * 60001\<rparr>)"
    using Suc.prems by (intro runCalls_new_window) simp_all
  moreover have "bursts (Suc (Suc w)) = bursts (Suc w) @ replicate 20 (int (Suc w) * 60001)"
    by (simp add: bursts_def)
  ultimately show ?case using before by (simp add: runCalls_append)
qed

text \<open>
  C1 as stated fails once the day counter has reached 500. A fresh limiter takes 25
  bursts of 20 calls, 60.001 seconds apart: all 500 calls succeed. The call 60.001
  seconds after the last burst comes after the minute has elapsed: it resets the
  minute counter, fails, and leaves the minute counter at 0; and the call after it,
  the first one counted in the new window, fails as well.
\<close>

theorem rate_limit_day_limit_counterexample:
  "length (bursts 25) = 500 \<and>
   runCalls (bursts 25) rc0 =
     (True, \<lparr>minute = 20, day = 500, lastMinuteReset = 1440024, lastDayReset = 0\<rparr>) \<and>
   checkRateLimit 1500025 \<lparr>minute = 20, day = 500, lastMinuteReset = 1440024, lastDayReset = 0\<rparr> =
     (Inl RateLimitExceeded, \<lparr>minute = 0, day = 500, lastMinuteReset = 1500025, lastDayReset = 0\<rparr>) \<and>
   checkRateLimit 1500026 \<lparr>minute = 0, day = 500, lastMinuteReset = 1500025, lastDayReset = 0\<rparr> =
     (Inl RateLimitExceeded, \<lparr>minute = 0, day = 500, lastMinuteReset = 1500025, lastDayReset = 0\<rparr>)"
proof -
  have "length (bursts w) = 20 * w" for w
    by (induction w) (simp_all add: bursts_def)
  then have "length (bursts 25) = 500" by simp
  moreover have "runCalls (bursts 25) rc0 =
     (True, \<lparr>minute = 20, day = 500, lastMinuteReset = 1440024, lastDayReset = 0\<rparr>)"
    using runCalls_bursts [of 24] by (simp add: numeral_eq_Suc)
  ultimately show ?thesis
    by (simp add: checkRateLimit_def perMinute_def perDay_def)
qed

section \<open>Properties of the retrying fetch\<close>

declare retryLoop.simps [simp del]

lemma retryLoop_exhaust:
  assumes "\<forall>k<d. retriable (fetch (fetchCount n + k) u)" and "i + d = maxRetries"
  shows "retryLoop fetch u maxRetries i le n =
           (Inl (case lastRejection (map (\<lambda>k. fetch (fetchCount n + k) u) [0..<d]) of
                   Some e \<Rightarrow> e
                 | None \<Rightarrow> (case le of Some e \<Rightarrow> e | None \<Rightarrow> Error ''Maximum retries exceeded'')),
            n\<lparr>fetchCount := fetchCount n + d,
               waits := waits n @ map (\<lambda>k. 2 ^ k * 1000) [i..<i + d]\<rparr>)"
  using assms
proof (induction d arbitrary: i le n)
  case 0
  then show ?case by (subst retryLoop.simps) simp
next
  case (Suc d)
  let ?n1 = "n\<lparr>fetchCount := fetchCount n + 1, waits := waits n @ [2 ^ i * 1000]\<rparr>"
  have lt: "i < maxRetries" using Suc.prems(2) by simp
  have first: "retriable (fetch (fetchCount n) u)"
    using Suc.prems(1) [rule_format, of 0] by simp
  have later: "\<forall>k<d. retriable (fetch (fetchCount ?n1 + k) u)"
    using Suc.prems(1) by auto
  have idx: "Suc i + d = maxRetries" using Suc.prems(2) by simp
  have shift: "map (\<lambda>k. fetch (fetchCount n + k) u) [0..<Suc d] =
      fetch (fetchCount n) u # map (\<lambda>k. fetch (fetchCount ?n1 + k) u) [0..<d]"
    by (simp add: map_upt_Suc del: upt_Suc)
  have ws: "(waits n @ [2 ^ i * 1000]) @ map (\<lambda>k. 2 ^ k * (1000::nat)) [Suc i..<Suc i + d] =
      waits n @ map (\<lambda>k. 2 ^ k * 1000) [i..<i + Suc d]"
    by (simp add: upt_conv_Cons del: upt_Suc)
  show ?case
  proof (cases "fetch (fetchCount n) u")
    case (Rejects e)
    have "retryLoop fetch u maxRetries i le n = retryLoop fetch u maxRetries (Suc i) (Some e) ?n1"
      using lt Rejects by (subst retryLoop.simps) simp
    also have "\<dots> = (Inl (case lastRejection (map (\<lambda>k. fetch (fetchCount ?n1 + k) u) [0..<d]) of
                   Some e' \<Rightarrow> e'
                 | None \<Rightarrow> (case Some e of Some e \<Rightarrow> e | None \<Rightarrow> Error ''Maximum retries exceeded'')),
            ?n1\<lparr>fetchCount := fetchCount ?n1 + d,
               waits := waits ?n1 @ map (\<lambda>k. 2 ^ k * 1000) [Suc i..<Suc i + d]\<rparr>)"
      by (rule Suc.IH [OF later idx])
    finally show ?thesis
      unfolding shift using Rejects ws by (simp split: option.splits)
  next
    case (Responds r)
    then have r: "status r = 429" using first by (simp add: retriable_def)
    have "retryLoop fetch u maxRetries i le n = retryLoop fetch u maxRetries (Suc i) le ?n1"
      using lt Responds r by (subst retryLoop.simps) simp
    also have "\<dots> = (Inl (case lastRejection (map (\<lambda>k. fetch (fetchCount ?n1 + k) u) [0..<d]) of
                   Some e' \<Rightarrow> e'
                 | None \<Rightarrow> (case le of Some e \<Rightarrow> e | None \<Rightarrow> Error ''Maximum retries exceeded'')),
            ?n1\<lparr>fetchCount := fetchCount ?n1 + d,
               waits := waits ?n1 @ map (\<lambda>k. 2 ^ k * 1000) [Suc i..<Suc i + d]\<rparr>)"
      by (rule Suc.IH [OF later idx])
    finally show ?thesis
      unfolding shift using Responds ws by (simp split: option.splits)
  qed
qed

lemma retryLoop_settles:
  assumes "\<forall>k<d. retriable (fetch (fetchCount n + k) u)" and "i + d < maxRetries"
    and "fetch (fetchCount n + d) u = Responds r" and "status r \<noteq> 429"
  shows "retryLoop fetch u maxRetries i le n =
           (Inr r, n\<lparr>fetchCount := fetchCount n + d + 1,
                      waits := waits n @ map (\<lambda>k. 2 ^ k * 1000) [i..<i + d]\<rparr>)"
  using assms
proof (induction d arbitrary: i le n)
  case 0
  then show ?case by (subst retryLoop.simps) simp
next
  case (Suc d)
  let ?n1 = "n\<lparr>fetchCount := fetchCount n + 1, waits := waits n @ [2 ^ i * 1000]\<rparr>"
  have lt: "i < maxRetries" using Suc.prems(2) by simp
  have first: "retriable (fetch (fetchCount n) u)"
    using Suc.prems(1) [rule_format, of 0] by simp
  have later: "\<forall>k<d. retriable (fetch (fetchCount ?n1 + k) u)"
    using Suc.prems(1) by auto
  have idx: "Suc i + d < maxRetries" using Suc.prems(2) by simp
  have last: "fetch (fetchCount ?n1 + d) u = Responds r" using Suc.prems(3) by simp
  have ws: "(waits n @ [2 ^ i * 1000]) @ map (\<lambda>k. 2 ^ k * (1000::nat)) [Suc i..<Suc i + d] =
      waits n @ map (\<lambda>k. 2 ^ k * 1000) [i..<i + Suc d]"
    by (simp add: upt_conv_Cons del: upt_Suc)
  have rest: "retryLoop fetch u maxRetries (Suc i) le' ?n1 =
      (Inr r, ?n1\<lparr>fetchCount := fetchCount ?n1 + d + 1,
                  waits := waits ?n1 @ map (\<lambda>k. 2 ^ k * 1000) [Suc i..<Suc i + d]\<rparr>)" for le'
    by (rule Suc.IH [OF later idx last Suc.prems(4)])
  show ?case
  proof (cases "fetch (fetchCount n) u")
    case (Rejects e)
    have "retryLoop fetch u maxRetries i le n = retryLoop fetch u maxRetries (Suc i) (Some e) ?n1"
      using lt Rejects by (subst retryLoop.simps) simp
    then show ?thesis using rest ws by simp
  next
    case (Responds r')
    then have r: "status r' = 429" using first by (simp add: retriable_def)
    have "retryLoop fetch u maxRetries i le n = retryLoop fetch u maxRetries (Suc i) le ?n1"
      using lt Responds r by (subst retryLoop.simps) simp
    then show ?thesis using rest ws by simp
  qed
qed

text \<open>
  C2. Among the calls of one \<open>fetchWithRetry\<close>, every rejected call and every 429
  response uses up one attempt and is followed by a wait of \<open>2 ^ attempt\<close> seconds;
  the first response with another status is returned at once. When all \<open>maxRetries\<close>
  attempts are used up, the call fails with the error of the last rejected call, or
  with "Maximum retries exceeded" when no call was rejected.
\<close>

theorem fetchWithRetry_outcomes:
  "((\<forall>k<j. retriable (fetch (fetchCount n + k) u)) \<and> j < maxRetries \<and>
    fetch (fetchCount n + j) u = Responds r \<and> status r \<noteq> 429 \<longrightarrow>
      fetchWithRetry fetch u maxRetries n =
        (Inr r, n\<lparr>fetchCount := fetchCount n + j + 1, waits := waits n @ backoffs j\<rparr>)) \<and>
   ((\<forall>k<maxRetries. retriable (fetch (fetchCount n + k) u)) \<longrightarrow>
      fetchWithRetry fetch u maxRetries n =
        (Inl (case lastRejection (map (\<lambda>k. fetch (fetchCount n + k) u) [0..<maxRetries]) of
                Some e \<Rightarrow> e
              | None \<Rightarrow> Error ''Maximum retries exceeded''),
         n\<lparr>fetchCount := fetchCount n + maxRetries, waits := waits n @ backoffs maxRetries\<rparr>))"
proof (intro conjI impI)
  assume "(\<forall>k<j. retriable (fetch (fetchCount n + k) u)) \<and> j < maxRetries \<and>
    fetch (fetchCount n + j) u = Responds r \<and> status r \<noteq> 429"
  then show "fetchWithRetry fetch u maxRetries n =
        (Inr r, n\<lparr>fetchCount := fetchCount n + j + 1, waits := waits n @ backoffs j\<rparr>)"
    using retryLoop_settles [of j fetch n u 0 maxRetries r None]
    by (simp add: fetchWithRetry_def backoffs_def)
next
  assume "\<forall>k<maxRetries. retriable (fetch (fetchCount n + k) u)"
  then show "fetchWithRetry fetch u maxRetries n =
        (Inl (case lastRejection (map (\<lambda>k. fetch (fetchCount n + k) u) [0..<maxRetries]) of
                Some e \<Rightarrow> e
              | None \<Rightarrow> Error ''Maximum retries exceeded''),
         n\<lparr>fetchCount := fetchCount n + maxRetries, waits := waits n @ backoffs maxRetries\<rparr>)"
    using retryLoop_exhaust [of maxRetries fetch n u 0 maxRetries None]
    by (simp add: fetchWithRetry_def backoffs_def split: option.splits)
qed

text \<open>
  With three attempts: two rejections and then a response give the response after the
  waits of 1 and 2 seconds; a network that always answers 429 fails after three calls.
\<close>

theorem fetchWithRetry_outcomes_witness:
  "fetchWithRetry failTwiceThenOk (ChartUrl ''AAPL'' 0 60 ''1d'') 3 net0 =
     (Inr \<lparr>status = 200, statusText = ''OK'', body = NoResult\<rparr>,
      \<lparr>fetchCount = 3, waits = [1000, 2000]\<rparr>) \<and>
   fetchWithRetry always429 (ChartUrl ''AAPL'' 0 60 ''1d'') 3 net0 =
     (Inl (Error ''Maximum retries exceeded''), \<lparr>fetchCount = 3, waits = [1000, 2000, 4000]\<rparr>)"
proof -
  let ?u = "ChartUrl ''AAPL'' 0 60 ''1d''"
  let ?r = "\<lparr>status = 200, statusText = ''OK'', body = NoResult\<rparr>"
  have pre1: "(\<forall>k<2. retriable (failTwiceThenOk (fetchCount net0 + k) ?u)) \<and> (2::nat) < 3 \<and>
    failTwiceThenOk (fetchCount net0 + 2) ?u = Responds ?r \<and> status ?r \<noteq> 429"
    by (simp add: failTwiceThenOk_def retriable_def net0_def)
  have pre2: "\<forall>k<3. retriable (always429 (fetchCount net0 + k) ?u)"
    by (simp add: always429_def retriable_def)
  have a: "fetchWithRetry failTwiceThenOk ?u 3 net0 =
        (Inr ?r, net0\<lparr>fetchCount := fetchCount net0 + 2 + 1, waits := waits net0 @ backoffs 2\<rparr>)"
    by (rule fetchWithRetry_outcomes [of 2 failTwiceThenOk net0 ?u 3 ?r, THEN conjunct1, THEN mp, OF pre1])
  have b: "fetchWithRetry always429 ?u 3 net0 =
        (Inl (case lastRejection (map (\<lambda>k. always429 (fetchCount net0 + k) ?u) [0..<3]) of
                Some e \<Rightarrow> e
              | None \<Rightarrow> Error ''Maximum retries exceeded''),
         net0\<lparr>fetchCount := fetchCount net0 + 3, waits := waits net0 @ backoffs 3\<rparr>)"
    by (rule fetchWithRetry_outcomes [of 0 always429 net0 ?u 3 ?r, THEN conjunct2, THEN mp, OF pre2])
  have ev: "backoffs 2 = [1000, 2000]" "backoffs 3 = [1000, 2000, 4000]"
    "lastRejection (map (\<lambda>k. always429 (fetchCount net0 + k) ?u) [0..<3]) = None"
    by (simp_all add: backoffs_def always429_def upt_rec)
  show ?thesis
    using a b by (simp add: ev) (simp add: net0_def)
qed

section \<open>Properties of the history table\<close>

declare tableRows.simps [simp del]

lemma step_pos: "0 < step len"
  by (simp add: step_def)

lemma sampled_iff: "k * step len < len \<longleftrightarrow> k < rowCount len"
proof -
  have "k < rowCount len \<longleftrightarrow> Suc k \<le> (len + step len - 1) div step len"
    by (simp add: rowCount_def Suc_le_eq)
  also have "\<dots> \<longleftrightarrow> Suc k * step len \<le> len + step len - 1"
    by (rule less_eq_div_iff_mult_less_eq [OF step_pos])
  also have "\<dots> \<longleftrightarrow> k * step len < len"
    using step_pos [of len] by auto
  finally show ?thesis by simp
qed

lemma tableRows_from:
  "rowCount (length (timestamp h)) - k0 = d \<Longrightarrow>
   tableRows rt h (k0 * step (length (timestamp h))) =
     map (\<lambda>k. tableRow rt h (k * step (length (timestamp h))))
       [k0..<rowCount (length (timestamp h))]"
proof (induction d arbitrary: k0)
  case 0
  then have "\<not> k0 < rowCount (length (timestamp h))" by simp
  then have "\<not> k0 * step (length (timestamp h)) < length (timestamp h)"
    by (simp add: sampled_iff)
  then show ?case using 0 by (subst tableRows.simps) simp
next
  case (Suc d)
  then have lt: "k0 < rowCount (length (timestamp h))" by simp
  then have "k0 * step (length (timestamp h)) < length (timestamp h)"
    by (simp add: sampled_iff)
  then have "tableRows rt h (k0 * step (length (timestamp h))) =
      tableRow rt h (k0 * step (length (timestamp h))) #
      tableRows rt h (Suc k0 * step (length (timestamp h)))"
    by (subst tableRows.simps) (simp add: add.commute)
  moreover have "tableRows rt h (Suc k0 * step (length (timestamp h))) =
      map (\<lambda>k. tableRow rt h (k * step (length (timestamp h))))
       [Suc k0..<rowCount (length (timestamp h))]"
    using Suc.prems by (intro Suc.IH) simp
  ultimately show ?case using lt by (simp add: upt_conv_Cons)
qed

lemma tableRows_sampled:
  "tableRows rt h 0 =
     map (\<lambda>k. tableRow rt h (k * step (length (timestamp h))))
       [0..<rowCount (length (timestamp h))]"
  using tableRows_from [of h 0 _ rt] by simp

lemma tableRow_point:
  "point h' i = point h i \<Longrightarrow> tableRow rt h' i = tableRow rt h i"
  by (simp add: point_def tableRow_def)

lemma series_length: "length (timestamp (series len)) = len"
  by (simp add: series_def)

lemma point_close_update:
  "i \<noteq> j \<Longrightarrow> point (h\<lparr>q_close := (q_close h)[j := v]\<rparr>) i = point h i"
  by (simp add: point_def atIdx_def)

text \<open>
  The table is a stride sample: it holds one line for each of the indices \<open>0\<close>,
  \<open>step\<close>, \<open>2 * step\<close>, ... below the number of points, in this order, where
  \<open>step\<close> is \<open>max 1 (points div 10)\<close>. A line is computed from the point at its own
  index only, so that a series which differs in the skipped points alone gives the
  same table. 100 points give the 10 lines of the indices 0, 10, ..., 90.
\<close>

lemma tableRows_stride_sample:
  "formatStockHistory rt h ticker period interval =
     historyHeader rt h ticker period interval @ concat (tableRows rt h 0) @ summary h \<and>
   tableRows rt h 0 =
     map (\<lambda>k. tableRow rt h (k * step (length (timestamp h))))
       [0..<rowCount (length (timestamp h))] \<and>
   (length (timestamp h') = length (timestamp h) \<and>
    (\<forall>k. point h' (k * step (length (timestamp h))) = point h (k * step (length (timestamp h)))) \<longrightarrow>
      tableRows rt h' 0 = tableRows rt h 0) \<and>
   (length (timestamp h) = 100 \<longrightarrow>
      step (length (timestamp h)) = 10 \<and>
      tableRows rt h 0 = map (\<lambda>k. tableRow rt h (k * 10)) [0..<10])"
proof (intro conjI impI)
  show "formatStockHistory rt h ticker period interval =
     historyHeader rt h ticker period interval @ concat (tableRows rt h 0) @ summary h"
    by (rule formatStockHistory_def)
next
  show "tableRows rt h 0 =
     map (\<lambda>k. tableRow rt h (k * step (length (timestamp h))))
       [0..<rowCount (length (timestamp h))]"
    by (rule tableRows_sampled)
next
  assume "length (timestamp h') = length (timestamp h) \<and>
    (\<forall>k. point h' (k * step (length (timestamp h))) = point h (k * step (length (timestamp h))))"
  then have len: "length (timestamp h') = length (timestamp h)"
    and pt: "\<And>k. point h' (k * step (length (timestamp h))) = point h (k * step (length (timestamp h)))"
    by auto
  have "tableRow rt h' (k * step (length (timestamp h))) = tableRow rt h (k * step (length (timestamp h)))" for k
    by (rule tableRow_point [OF pt])
  then show "tableRows rt h' 0 = tableRows rt h 0"
    by (simp add: tableRows_sampled len)
next
  assume len: "length (timestamp h) = 100"
  show "step (length (timestamp h)) = 10"
    by (simp add: len step_def maxPoints_def)
  show "tableRows rt h 0 = map (\<lambda>k. tableRow rt h (k * 10)) [0..<10]"
    by (simp add: tableRows_sampled len step_def maxPoints_def rowCount_def)
qed

text \<open>
  The series of 100 points: 10 lines at stride 10; putting \<open>null\<close> for the closing
  price of the skipped point 5 leaves the table as it is.
\<close>

lemma tableRows_100_points:
  "length (tableRows enUS (series 100) 0) = 10 \<and>
   tableRows enUS (series 100) 0 = map (\<lambda>k. tableRow enUS (series 100) (k * 10)) [0..<10] \<and>
   tableRows enUS ((series 100)\<lparr>q_close := (q_close (series 100))[5 := Null]\<rparr>) 0 =
     tableRows enUS (series 100) 0"
proof -
  let ?h = "series 100"
  let ?h' = "?h\<lparr>q_close := (q_close ?h)[5 := Null]\<rparr>"
  note inst = tableRows_stride_sample [of enUS ?h "''AAPL''" "''1y''" "''1d''" ?h']
  have len: "length (timestamp ?h) = 100"
    by (rule series_length)
  have st: "step (length (timestamp ?h)) = 10"
    by (simp add: len step_def maxPoints_def)
  have same: "length (timestamp ?h') = length (timestamp ?h) \<and>
    (\<forall>k. point ?h' (k * step (length (timestamp ?h))) = point ?h (k * step (length (timestamp ?h))))"
  proof (intro conjI allI)
    show "length (timestamp ?h') = length (timestamp ?h)" by simp
    fix k :: nat
    have "k * 10 \<noteq> 5" by presburger
    then show "point ?h' (k * step (length (timestamp ?h))) = point ?h (k * step (length (timestamp ?h)))"
      unfolding st by (rule point_close_update)
  qed
  have b: "tableRows enUS ?h 0 = map (\<lambda>k. tableRow enUS ?h (k * 10)) [0..<10]"
    using inst [THEN conjunct2, THEN conjunct2, THEN conjunct2, THEN mp, OF len] by blast
  have c: "tableRows enUS ?h' 0 = tableRows enUS ?h 0"
    by (rule inst [THEN conjunct2, THEN conjunct2, THEN conjunct1, THEN mp, OF same])
  have "length (tableRows enUS ?h 0) = 10"
    by (subst b) simp
  then show ?thesis using b c by blast
qed

text \<open>
  C3. The code names its bound \<open>maxPoints = 10\<close> ("only show a reasonable number of data
  points") and takes \<open>floor (points / maxPoints)\<close> for the stride, which rounds the stride
  down and so lets the table grow beyond the bound: 19 points give a stride of 1 and a
  table of 19 lines, and 109 points give a stride of 10 and 11 lines, where the claim
  has at most 10. The sample itself is as the claim says (\<open>tableRows_stride_sample\<close>).
\<close>

theorem history_table_exceeds_maxPoints:
  "maxPoints = 10 \<and>
   step 19 = 1 \<and> length (tableRows enUS (series 19) 0) = 19 \<and>
   step 109 = 10 \<and> length (tableRows enUS (series 109) 0) = 11"
  by (simp add: tableRows_sampled series_length step_def maxPoints_def rowCount_def)

section \<open>Properties of the history summary\<close>

lemma summary_present:
  assumes "0 < length (timestamp h)"
    and "atIdx (q_close h) 0 = Num a"
    and "atIdx (q_close h) (length (timestamp h) - 1) = Num b"
  shows "summary h =
           nl @ ''Price Change: $'' @ toFixed2 (jsub b a) @
           '' ('' @ toFixed2 (jmul (jdiv (jsub b a) a) (Fin 100)) @ ''%)''"
  using assms by (simp add: summary_def Let_def)

lemma summary_undefined:
  assumes "length (timestamp h) = 0 \<or> atIdx (q_close h) 0 = Undefined \<or>
           atIdx (q_close h) (length (timestamp h) - 1) = Undefined"
  shows "summary h = []"
  using assms by (auto simp: summary_def Let_def)

lemma summary_full_series:
  "timestamp h' = timestamp h \<Longrightarrow> q_close h' = q_close h \<Longrightarrow> summary h' = summary h"
  by (simp add: summary_def Let_def)

text \<open>
  C4. The test of the summary is \<open>!== undefined\<close> only. With numbers at both ends of
  the series the line is as the claim says (\<open>summary_present\<close>), and an empty series or
  an end that is \<open>undefined\<close> gives no line (\<open>summary_undefined\<close>). A closing price that
  is the JSON \<open>null\<close> passes the test and is used as the number 0: with \<open>null\<close> for the
  first closing price and 10 for the last, the table prints the first closing price as
  N/A and the summary line reads a change of 10.00 and a percent change of Infinity.
\<close>

theorem history_summary_null_close:
  "summary nullCloseSeries = ''\<newline>Price Change: $10.00 (Infinity%)'' \<and>
   tableRows enUS nullCloseSeries 0 =
     [''11/14/2023  | $N/A      | $N/A      | $N/A      | $N/A      | N/A\<newline>'',
      ''11/15/2023  | $N/A      | $N/A      | $N/A      | $10.00    | N/A\<newline>'']"
  by code_simp

section \<open>Properties of the quote report\<close>

lemma formatNumber_absent: "formatNumber rt Undefined = ''N/A''" "formatNumber rt Null = ''N/A''"
  by (simp_all add: formatNumber_def)

lemma formatNumber_present: "formatNumber rt (Num x) = toLocaleString rt x"
  by (simp add: formatNumber_def)

lemma formatPercent_absent: "formatPercent Undefined = ''N/A''" "formatPercent Null = ''N/A''"
  by (simp_all add: formatPercent_def)

lemma formatPercent_present: "formatPercent (Num x) = toFixed2 (jmul x (Fin 100)) @ ''%''"
  by (simp add: formatPercent_def)

text \<open>
  The derived fields are computed whatever the operands are, and are never absent: the
  report prints them through \<open>toLocaleString\<close> and \<open>toFixed\<close>.
\<close>

lemma quoteData_change:
  "formatNumber rt (regularMarketChange (quoteData result m ticker)) =
     toLocaleString rt (jsub (toNumber (m_regularMarketPrice m)) (toNumber (m_chartPreviousClose m)))"
  "formatPercent (regularMarketChangePercent (quoteData result m ticker)) =
     toFixed2 (jmul (jdiv (jsub (toNumber (m_regularMarketPrice m)) (toNumber (m_chartPreviousClose m)))
                      (toNumber (m_chartPreviousClose m))) (Fin 100)) @ ''%''"
  by (simp_all add: quoteData_def formatNumber_def formatPercent_def)

lemma quoteData_change_absent_operand:
  "m_regularMarketPrice m = Undefined \<or> m_chartPreviousClose m = Undefined \<Longrightarrow>
   regularMarketChange (quoteData result m ticker) = Num NaN \<and>
   regularMarketChangePercent (quoteData result m ticker) = Num NaN"
  by (cases "toNumber (m_regularMarketPrice m)"; cases "toNumber (m_chartPreviousClose m)")
     (auto simp: quoteData_def)

text \<open>
  C8. A numeric field that is absent renders as N/A (\<open>formatNumber_absent\<close>,
  \<open>formatPercent_absent\<close>) and a present one through \<open>toLocaleString\<close>, or as the value
  times 100 to two decimals with a percent sign (\<open>formatNumber_present\<close>,
  \<open>formatPercent_present\<close>); an absent symbol prints as "undefined", an absent name as
  the requested symbol. The change and the percent change are computed without a
  test of their operands: when the answer has a metadata block without the price and
  the previous close, the report reads "Change: $NaN (NaN%)" where the claim has N/A.
\<close>

theorem quote_absent_prices_render_NaN:
  "fst (fetchStockQuote enUS
          (answers \<lparr>status = 200, statusText = ''OK'', body = Result noPrices\<rparr>)
          1000 ''AAPL'' rc0 net0) =
   Inr (''Symbol: AAPL\<newline>Name: AAPL\<newline>Price: $N/A\<newline>Change: $NaN (NaN%)\<newline>Previous Close: $N/A\<newline>Open: $N/A\<newline>Day Range: $N/A - $N/A\<newline>52 Week Range: $N/A - $N/A\<newline>Volume: N/A\<newline>Avg. Volume: N/A\<newline>Market Cap: $N/A\<newline>P/E Ratio: N/A\<newline>EPS: $N/A\<newline>Dividend Yield: N/A'')"
  by code_simp

section \<open>Properties of the market-data pipeline\<close>

lemma successes_simps:
  "successes [] = []"
  "successes (Some q # rs) = q # successes rs"
  "successes (None # rs) = successes rs"
  by (simp_all add: successes_def)

lemma indexLoop_outcomes:
  "fst (indexLoop fetch now indices acc n) = acc @ successes (indexOutcomes fetch now indices n)"
proof (induction indices arbitrary: acc n)
  case Nil
  then show ?case by (simp add: successes_simps)
next
  case (Cons s rest)
  obtain r n' where step: "fetchIndex fetch now s n = (r, n')"
    by (cases "fetchIndex fetch now s n")
  show ?case
    by (cases r) (simp_all add: step Cons.IH successes_simps)
qed

lemma indexOutcomes_length: "length (indexOutcomes fetch now indices n) = length indices"
  by (induction indices arbitrary: n) (auto split: prod.splits)

lemma fetchIndex_symbol:
  "fetchIndex fetch now s n = (Some q, n') \<Longrightarrow> symbol q = Some s"
  by (auto simp: fetchIndex_def indexRecord_def
           split: prod.splits sum.splits if_splits payload.splits option.splits)

lemma indexOutcomes_symbol:
  "i < length indices \<Longrightarrow> indexOutcomes fetch now indices n ! i = Some q \<Longrightarrow>
   symbol q = Some (indices ! i)"
proof (induction indices arbitrary: n i)
  case Nil
  then show ?case by simp
next
  case (Cons s rest)
  obtain r n' where step: "fetchIndex fetch now s n = (r, n')"
    by (cases "fetchIndex fetch now s n")
  show ?case
  proof (cases i)
    case 0
    then show ?thesis using Cons.prems step by (simp add: fetchIndex_symbol)
  next
    case (Suc j)
    then show ?thesis using Cons.prems step Cons.IH [of j n'] by simp
  qed
qed

lemma fetchMarketData_text:
  assumes "checkRateLimit now rc = (Inr (), rc')"
  shows "fst (fetchMarketData rt fetch now indices rc n) =
           Inr (if successes (indexOutcomes fetch now indices n) = [] then unableMarketData
                else formatMarketData rt (successes (indexOutcomes fetch now indices n)))"
proof -
  obtain rs n' where loop: "indexLoop fetch now indices [] n = (rs, n')"
    by (cases "indexLoop fetch now indices [] n")
  have "rs = successes (indexOutcomes fetch now indices n)"
    using indexLoop_outcomes [of fetch now indices "[]" n] loop by simp
  then show ?thesis
    using assms loop by (simp add: fetchMarketData_def)
qed

lemma fetchIndex_net:
  "snd (fetchIndex fetch now s n) = snd (fetchWithRetry fetch (snapshotUrl now s) 3 n)"
  by (simp add: fetchIndex_def snapshotUrl_def
           split: prod.splits sum.splits payload.splits option.splits)

lemma indexLoop_net:
  "snd (indexLoop fetch now indices acc n) = netAfter fetch now indices n"
proof (induction indices arbitrary: acc n)
  case Nil
  then show ?case by (simp add: netAfter_def)
next
  case (Cons s rest)
  obtain r n' where step: "fetchIndex fetch now s n = (r, n')"
    by (cases "fetchIndex fetch now s n")
  have n': "n' = snd (fetchWithRetry fetch (snapshotUrl now s) 3 n)"
    using fetchIndex_net [of fetch now s n] step by simp
  have "netAfter fetch now (s # rest) n = netAfter fetch now rest n'"
    by (simp add: netAfter_def n')
  then show ?case
    by (cases r) (simp_all add: step Cons.IH)
qed

lemma indexOutcomes_nth:
  "i < length indices \<Longrightarrow>
   indexOutcomes fetch now indices n ! i =
     fst (fetchIndex fetch now (indices ! i) (netAfter fetch now (take i indices) n))"
proof (induction indices arbitrary: n i)
  case Nil
  then show ?case by simp
next
  case (Cons s rest)
  obtain r n' where step: "fetchIndex fetch now s n = (r, n')"
    by (cases "fetchIndex fetch now s n")
  have n': "n' = snd (fetchWithRetry fetch (snapshotUrl now s) 3 n)"
    using fetchIndex_net [of fetch now s n] step by simp
  show ?case
  proof (cases i)
    case 0
    then show ?thesis using step by (simp add: netAfter_def)
  next
    case (Suc j)
    then have "j < length rest" using Cons.prems by simp
    then have "indexOutcomes fetch now rest n' ! j =
        fst (fetchIndex fetch now (rest ! j) (netAfter fetch now (take j rest) n'))"
      by (rule Cons.IH)
    moreover have "netAfter fetch now (take i (s # rest)) n = netAfter fetch now (take j rest) n'"
      using Suc by (simp add: netAfter_def n')
    ultimately show ?thesis using Suc step by simp
  qed
qed

lemma fetchIndex_cases:
  "(fetchWithRetry fetch (snapshotUrl now s) 3 m = (Inl e, m') \<longrightarrow>
      fst (fetchIndex fetch now s m) = None) \<and>
   (fetchWithRetry fetch (snapshotUrl now s) 3 m = (Inr r, m') \<and> \<not> ok r \<longrightarrow>
      fst (fetchIndex fetch now s m) = None) \<and>
   (fetchWithRetry fetch (snapshotUrl now s) 3 m = (Inr r, m') \<and> ok r \<longrightarrow>
      fst (fetchIndex fetch now s m) =
        (case body r of
           Result result \<Rightarrow> map_option (indexRecord s) (meta result)
         | _ \<Rightarrow> None))"
  by (auto simp: fetchIndex_def snapshotUrl_def split: payload.splits option.splits)

text \<open>
  C9. Once the rate-limit check has passed, the pipeline returns a text and never an
  error. Each index is fetched once, in the order of the list, from the network state
  the index before it left. Its fetch gives a record exactly when \<open>fetchWithRetry\<close>
  settles with a success response whose first result has a metadata block; a fetch that
  fails after its retries, a response that is not a success, a body that cannot be
  read and a body without result or metadata give none. The text is made of the blocks
  of the records, in the order of the list, joined by a blank line, and it is the
  single message "Unable to retrieve market data ..." when there is no record.
\<close>

theorem market_data_partial_failure:
  "(checkRateLimit now rc = (Inr (), rc') \<longrightarrow>
     fst (fetchMarketData rt fetch now indices rc n) =
       Inr (if successes (indexOutcomes fetch now indices n) = [] then unableMarketData
            else join (nl @ nl)
                   (map (formatIndex rt) (successes (indexOutcomes fetch now indices n)))) \<and>
     length (indexOutcomes fetch now indices n) = length indices \<and>
     (\<forall>i q. i < length indices \<and> indexOutcomes fetch now indices n ! i = Some q \<longrightarrow>
        symbol q = Some (indices ! i))) \<and>
   (\<forall>i<length indices.
      indexOutcomes fetch now indices n ! i =
        fst (fetchIndex fetch now (indices ! i) (netAfter fetch now (take i indices) n))) \<and>
   (fetchWithRetry fetch (snapshotUrl now s) 3 m = (Inl e, m') \<longrightarrow>
      fst (fetchIndex fetch now s m) = None) \<and>
   (fetchWithRetry fetch (snapshotUrl now s) 3 m = (Inr r, m') \<and> \<not> ok r \<longrightarrow>
      fst (fetchIndex fetch now s m) = None) \<and>
   (fetchWithRetry fetch (snapshotUrl now s) 3 m = (Inr r, m') \<and> ok r \<longrightarrow>
      fst (fetchIndex fetch now s m) =
        (case body r of
           Result result \<Rightarrow> map_option (indexRecord s) (meta result)
         | _ \<Rightarrow> None))"
proof (intro conjI)
  show "checkRateLimit now rc = (Inr (), rc') \<longrightarrow>
     fst (fetchMarketData rt fetch now indices rc n) =
       Inr (if successes (indexOutcomes fetch now indices n) = [] then unableMarketData
            else join (nl @ nl)
                   (map (formatIndex rt) (successes (indexOutcomes fetch now indices n)))) \<and>
     length (indexOutcomes fetch now indices n) = length indices \<and>
     (\<forall>i q. i < length indices \<and> indexOutcomes fetch now indices n ! i = Some q \<longrightarrow>
        symbol q = Some (indices ! i))"
  proof (intro impI conjI allI)
    assume "checkRateLimit now rc = (Inr (), rc')"
    then show "fst (fetchMarketData rt fetch now indices rc n) =
         Inr (if successes (indexOutcomes fetch now indices n) = [] then unableMarketData
              else join (nl @ nl)
                     (map (formatIndex rt) (successes (indexOutcomes fetch now indices n))))"
      using fetchMarketData_text [of now rc rc' rt fetch indices n]
      by (simp add: formatMarketData_def)
  next
    show "length (indexOutcomes fetch now indices n) = length indices"
      by (rule indexOutcomes_length)
  next
    fix i q
    assume "i < length indices \<and> indexOutcomes fetch now indices n ! i = Some q"
    then show "symbol q = Some (indices ! i)"
      using indexOutcomes_symbol [of i indices fetch now n q] by blast
  qed
next
  show "\<forall>i<length indices.
      indexOutcomes fetch now indices n ! i =
        fst (fetchIndex fetch now (indices ! i) (netAfter fetch now (take i indices) n))"
    using indexOutcomes_nth by blast
next
  show "fetchWithRetry fetch (snapshotUrl now s) 3 m = (Inl e, m') \<longrightarrow>
      fst (fetchIndex fetch now s m) = None"
    using fetchIndex_cases [of fetch now s m e m'] by blast
next
  show "fetchWithRetry fetch (snapshotUrl now s) 3 m = (Inr r, m') \<and> \<not> ok r \<longrightarrow>
      fst (fetchIndex fetch now s m) = None"
    using fetchIndex_cases [of fetch now s m _ m' r] by blast
next
  show "fetchWithRetry fetch (snapshotUrl now s) 3 m = (Inr r, m') \<and> ok r \<longrightarrow>
      fst (fetchIndex fetch now s m) =
        (case body r of
           Result result \<Rightarrow> map_option (indexRecord s) (meta result)
         | _ \<Rightarrow> None)"
    using fetchIndex_cases [of fetch now s m _ m' r] by blast
qed

text \<open>
  Five indices of which \<open>^DJI\<close> is rejected three times, \<open>^RUT\<close> is answered 404
  and \<open>^VIX\<close> is answered without a result: the text has the blocks of \<open>^GSPC\<close> and
  \<open>^IXIC\<close>, in this order, and the three others give no record.
\<close>

theorem market_data_partial_failure_witness:
  "fst (fetchMarketData enUS mixedNet 1000 fiveIndices rc0 net0) =
     Inr (''^GSPC\<newline>Price: 5,000\<newline>Change: 50 (1.01%)\<newline>Previous Close: 4,950\<newline>Day Range: 4,900 - 5,010'' @
          ''\<newline>\<newline>'' @
          ''^IXIC\<newline>Price: 5,000\<newline>Change: 50 (1.01%)\<newline>Previous Close: 4,950\<newline>Day Range: 4,900 - 5,010'') \<and>
   fst (fetchIndex mixedNet 1000 ''^DJI'' (net0\<lparr>fetchCount := 1\<rparr>)) = None \<and>
   fst (fetchIndex mixedNet 1000 ''^RUT'' net0) = None \<and>
   fst (fetchIndex mixedNet 1000 ''^VIX'' net0) = None \<and>
   fst (fetchIndex mixedNet 1000 ''^IXIC'' net0) = Some (indexRecord ''^IXIC'' indexMeta) \<and>
   indexOutcomes mixedNet 1000 fiveIndices net0 ! 1 = None"
proof -
  let ?rc1 = "rc0\<lparr>minute := 1, day := 1\<rparr>"
  let ?n1 = "net0\<lparr>fetchCount := 1\<rparr>"
  let ?n4 = "\<lparr>fetchCount = 4, waits = [1000, 2000, 4000]\<rparr>"
  let ?ok = "\<lparr>status = 200, statusText = ''OK'', body = NoResult\<rparr>"
  have pre: "checkRateLimit 1000 rc0 = (Inr (), ?rc1)"
    by (simp add: checkRateLimit_def rc0_def perMinute_def perDay_def)
  have dji: "fetchWithRetry mixedNet (snapshotUrl 1000 ''^DJI'') 3 ?n1 = (Inl (Error ''ECONNRESET''), ?n4)"
    by code_simp
  have rut: "fetchWithRetry mixedNet (snapshotUrl 1000 ''^RUT'') 3 net0 = (Inr notFound, ?n1) \<and> \<not> ok notFound"
    by code_simp
  have vix: "fetchWithRetry mixedNet (snapshotUrl 1000 ''^VIX'') 3 net0 = (Inr ?ok, ?n1) \<and> ok ?ok"
    by code_simp
  have ixic: "fetchWithRetry mixedNet (snapshotUrl 1000 ''^IXIC'') 3 net0 = (Inr indexAnswer, ?n1) \<and> ok indexAnswer"
    by code_simp
  have "fst (fetchMarketData enUS mixedNet 1000 fiveIndices rc0 net0) =
       Inr (if successes (indexOutcomes mixedNet 1000 fiveIndices net0) = [] then unableMarketData
            else join (nl @ nl)
                   (map (formatIndex enUS) (successes (indexOutcomes mixedNet 1000 fiveIndices net0))))"
    using market_data_partial_failure [of 1000 rc0 ?rc1 enUS mixedNet fiveIndices net0] pre
    by blast
  moreover have "(if successes (indexOutcomes mixedNet 1000 fiveIndices net0) = [] then unableMarketData
            else join (nl @ nl)
                   (map (formatIndex enUS) (successes (indexOutcomes mixedNet 1000 fiveIndices net0)))) =
     ''^GSPC\<newline>Price: 5,000\<newline>Change: 50 (1.01%)\<newline>Previous Close: 4,950\<newline>Day Range: 4,900 - 5,010'' @
          ''\<newline>\<newline>'' @
          ''^IXIC\<newline>Price: 5,000\<newline>Change: 50 (1.01%)\<newline>Previous Close: 4,950\<newline>Day Range: 4,900 - 5,010''"
    by code_simp
  moreover have "fst (fetchIndex mixedNet 1000 ''^DJI'' ?n1) = None"
    using market_data_partial_failure
      [of 1000 rc0 ?rc1 enUS mixedNet fiveIndices net0 "''^DJI''" ?n1 "Error ''ECONNRESET''" ?n4] dji
    by blast
  moreover have "fst (fetchIndex mixedNet 1000 ''^RUT'' net0) = None"
    using market_data_partial_failure
      [of 1000 rc0 ?rc1 enUS mixedNet fiveIndices net0 "''^RUT''" net0 _ ?n1 notFound] rut
    by blast
  moreover have "fst (fetchIndex mixedNet 1000 ''^VIX'' net0) = None"
    using market_data_partial_failure
      [of 1000 rc0 ?rc1 enUS mixedNet fiveIndices net0 "''^VIX''" net0 _ ?n1 ?ok] vix
    by simp
  moreover have "fst (fetchIndex mixedNet 1000 ''^IXIC'' net0) = Some (indexRecord ''^IXIC'' indexMeta)"
    using market_data_partial_failure
      [of 1000 rc0 ?rc1 enUS mixedNet fiveIndices net0 "''^IXIC''" net0 _ ?n1 indexAnswer] ixic
    by (simp add: indexAnswer_def)
  moreover have "indexOutcomes mixedNet 1000 fiveIndices net0 ! 1 = None"
  proof -
    have "netAfter mixedNet 1000 (take 1 fiveIndices) net0 = ?n1"
      by code_simp
    moreover have "fiveIndices ! 1 = ''^DJI''" "(1::nat) < length fiveIndices"
      by (simp_all add: fiveIndices_def)
    moreover have "\<forall>i<length fiveIndices.
      indexOutcomes mixedNet 1000 fiveIndices net0 ! i =
        fst (fetchIndex mixedNet 1000 (fiveIndices ! i) (netAfter mixedNet 1000 (take i fiveIndices) net0))"
      using market_data_partial_failure [of 1000 rc0 ?rc1 enUS mixedNet fiveIndices net0] by blast
    ultimately show ?thesis
      using \<open>fst (fetchIndex mixedNet 1000 ''^DJI'' ?n1) = None\<close> by simp
  qed
  ultimately show ?thesis by simp
qed

section \<open>The rate-limit check of the pipelines\<close>

lemma checkRateLimit_error:
  "checkRateLimit now rc = (Inl e, rc') \<Longrightarrow> e = RateLimitExceeded"
  by (auto simp: checkRateLimit_def Let_def split: if_splits)

lemma checkRateLimit_counters:
  assumes "checkRateLimit now rc = (Inr x, rc')"
  shows "minute rc' = (if now - lastMinuteReset rc > 60000 then 0 else minute rc) + 1"
    and "day rc' = (if now - lastDayReset rc > 86400000 then 0 else day rc) + 1"
  using assms by (auto simp: checkRateLimit_def Let_def split: if_splits)

lemma fetchMarketData_rate_state:
  "fst (snd (fetchMarketData rt fetch now indices rc n)) = snd (checkRateLimit now rc)"
  by (simp add: fetchMarketData_def split: prod.splits sum.splits)

lemma fetchStockQuote_rate_state:
  "fst (snd (fetchStockQuote rt fetch now ticker rc n)) = snd (checkRateLimit now rc)"
  by (simp add: fetchStockQuote_def split: prod.splits sum.splits payload.splits option.splits)

lemma fetchStockHistory_rate_state:
  "fst (snd (fetchStockHistory rt fetch now ticker period interval rc n)) = snd (checkRateLimit now rc)"
  by (simp add: fetchStockHistory_def Let_def split: prod.splits sum.splits payload.splits)

lemma fetchMarketData_net:
  "(fst (checkRateLimit now rc) = Inl RateLimitExceeded \<longrightarrow>
      fst (fetchMarketData rt fetch now indices rc n) = Inl RateLimitExceeded \<and>
      snd (snd (fetchMarketData rt fetch now indices rc n)) = n) \<and>
   (fst (checkRateLimit now rc) = Inr () \<longrightarrow>
      snd (snd (fetchMarketData rt fetch now indices rc n)) = netAfter fetch now indices n)"
proof (intro conjI impI)
  assume a: "fst (checkRateLimit now rc) = Inl RateLimitExceeded"
  then show "fst (fetchMarketData rt fetch now indices rc n) = Inl RateLimitExceeded"
    and "snd (snd (fetchMarketData rt fetch now indices rc n)) = n"
    by (auto simp: fetchMarketData_def split: prod.splits sum.splits)
next
  assume a: "fst (checkRateLimit now rc) = Inr ()"
  obtain rs n' where loop: "indexLoop fetch now indices [] n = (rs, n')"
    by (cases "indexLoop fetch now indices [] n")
  then have "n' = netAfter fetch now indices n"
    using indexLoop_net [of fetch now indices "[]" n] by simp
  then show "snd (snd (fetchMarketData rt fetch now indices rc n)) = netAfter fetch now indices n"
    using a loop by (auto simp: fetchMarketData_def split: prod.splits sum.splits)
qed

lemma fetchStockQuote_net:
  "(fst (checkRateLimit now rc) = Inl RateLimitExceeded \<longrightarrow>
      snd (snd (fetchStockQuote rt fetch now ticker rc n)) = n) \<and>
   (fst (checkRateLimit now rc) = Inr () \<longrightarrow>
      snd (snd (fetchStockQuote rt fetch now ticker rc n)) =
        snd (fetchWithRetry fetch (snapshotUrl now ticker) 3 n))"
  by (auto simp: fetchStockQuote_def snapshotUrl_def
           split: prod.splits sum.splits payload.splits option.splits)

lemma checkRateLimit_result:
  "fst (checkRateLimit now rc) = Inl RateLimitExceeded \<or> fst (checkRateLimit now rc) = Inr ()"
  by (simp add: checkRateLimit_def Let_def)

lemma retryLoop_fetchCount:
  "fetchCount n + (if retries < maxRetries then 1 else 0) \<le>
     fetchCount (snd (retryLoop fetch u maxRetries retries lastError n)) \<and>
   fetchCount (snd (retryLoop fetch u maxRetries retries lastError n)) \<le>
     fetchCount n + (maxRetries - retries)"
proof (induction fetch u maxRetries retries lastError n rule: retryLoop.induct)
  case (1 fetch u maxRetries retries lastError n)
  show ?case
  proof (cases "retries < maxRetries")
    case False
    then show ?thesis by (subst (1 2) retryLoop.simps) simp
  next
    case True
    show ?thesis
    proof (cases "fetch (fetchCount n) u")
      case (Rejects e)
      then show ?thesis
        using True "1.IH"(1) [OF True Rejects]
        by (subst (1 2) retryLoop.simps) (auto split: if_splits)
    next
      case (Responds r)
      show ?thesis
      proof (cases "status r = 429")
        case T: True
        then show ?thesis
          using True Responds "1.IH"(2) [OF True Responds T]
          by (subst (1 2) retryLoop.simps) (auto split: if_splits)
      next
        case False
        then show ?thesis
          using True Responds by (subst (1 2) retryLoop.simps) simp
      qed
    qed
  qed
qed

lemma netAfter_fetchCount:
  "fetchCount n + length indices \<le> fetchCount (netAfter fetch now indices n) \<and>
   fetchCount (netAfter fetch now indices n) \<le> fetchCount n + 3 * length indices"
proof (induction indices arbitrary: n)
  case Nil
  then show ?case by (simp add: netAfter_def)
next
  case (Cons s rest)
  let ?n1 = "snd (fetchWithRetry fetch (snapshotUrl now s) 3 n)"
  have one: "fetchCount n + 1 \<le> fetchCount ?n1 \<and> fetchCount ?n1 \<le> fetchCount n + 3"
    using retryLoop_fetchCount [of n 0 3 fetch "snapshotUrl now s" None]
    by (simp add: fetchWithRetry_def)
  have "netAfter fetch now (s # rest) n = netAfter fetch now rest ?n1"
    by (simp add: netAfter_def)
  then show ?case using Cons.IH [of ?n1] one by simp
qed

text \<open>
  C7 (as amended). \<open>checkRateLimit\<close> runs once for a call of the market-data pipeline,
  before the loop and whatever the number of indices, as it runs once for a call of the
  quote pipeline: the rate-limit state after the call is the state after one check.
  When the check fails, the call fails with its error and no fetch is made. When it
  passes, the loop body runs once for each index and makes one \<open>fetchWithRetry\<close> for
  it (at least one fetch each), where the quote pipeline makes one \<open>fetchWithRetry\<close>.
\<close>

theorem market_data_one_rate_check:
  "fst (snd (fetchMarketData rt fetch now indices rc n)) = snd (checkRateLimit now rc) \<and>
   fst (snd (fetchStockQuote rt fetch now ticker rc n)) = snd (checkRateLimit now rc) \<and>
   length (indexOutcomes fetch now indices n) = length indices \<and>
   (fst (checkRateLimit now rc) = Inl RateLimitExceeded \<or> fst (checkRateLimit now rc) = Inr ()) \<and>
   (fst (checkRateLimit now rc) = Inl RateLimitExceeded \<longrightarrow>
      fst (fetchMarketData rt fetch now indices rc n) = Inl RateLimitExceeded \<and>
      snd (snd (fetchMarketData rt fetch now indices rc n)) = n \<and>
      snd (snd (fetchStockQuote rt fetch now ticker rc n)) = n) \<and>
   (fst (checkRateLimit now rc) = Inr () \<longrightarrow>
      snd (snd (fetchMarketData rt fetch now indices rc n)) = netAfter fetch now indices n \<and>
      snd (snd (fetchStockQuote rt fetch now ticker rc n)) =
        snd (fetchWithRetry fetch (snapshotUrl now ticker) 3 n) \<and>
      fetchCount n + length indices \<le> fetchCount (snd (snd (fetchMarketData rt fetch now indices rc n))) \<and>
      fetchCount (snd (snd (fetchMarketData rt fetch now indices rc n))) \<le> fetchCount n + 3 * length indices)"
proof (intro conjI impI)
  show "fst (snd (fetchMarketData rt fetch now indices rc n)) = snd (checkRateLimit now rc)"
    by (rule fetchMarketData_rate_state)
  show "fst (snd (fetchStockQuote rt fetch now ticker rc n)) = snd (checkRateLimit now rc)"
    by (rule fetchStockQuote_rate_state)
  show "length (indexOutcomes fetch now indices n) = length indices"
    by (rule indexOutcomes_length)
  show "fst (checkRateLimit now rc) = Inl RateLimitExceeded \<or> fst (checkRateLimit now rc) = Inr ()"
    by (rule checkRateLimit_result)
next
  assume a: "fst (checkRateLimit now rc) = Inl RateLimitExceeded"
  show "fst (fetchMarketData rt fetch now indices rc n) = Inl RateLimitExceeded"
    using a fetchMarketData_net [of now rc rt fetch indices n] by blast
  show "snd (snd (fetchMarketData rt fetch now indices rc n)) = n"
    using a fetchMarketData_net [of now rc rt fetch indices n] by blast
  show "snd (snd (fetchStockQuote rt fetch now ticker rc n)) = n"
    using a fetchStockQuote_net [of now rc rt fetch ticker n] by blast
next
  assume a: "fst (checkRateLimit now rc) = Inr ()"
  show m: "snd (snd (fetchMarketData rt fetch now indices rc n)) = netAfter fetch now indices n"
    using a fetchMarketData_net [of now rc rt fetch indices n] by blast
  show "snd (snd (fetchStockQuote rt fetch now ticker rc n)) =
        snd (fetchWithRetry fetch (snapshotUrl now ticker) 3 n)"
    using a fetchStockQuote_net [of now rc rt fetch ticker n] by blast
  show "fetchCount n + length indices \<le> fetchCount (snd (snd (fetchMarketData rt fetch now indices rc n)))"
    unfolding m using netAfter_fetchCount [of n indices fetch now] by blast
  show "fetchCount (snd (snd (fetchMarketData rt fetch now indices rc n))) \<le> fetchCount n + 3 * length indices"
    unfolding m using netAfter_fetchCount [of n indices fetch now] by blast
qed

text \<open>
  The three default indices, each answered at once: on a limiter that is used up the
  call fails with the rate-limit error and makes no fetch; on a fresh limiter it makes
  three fetches.
\<close>

theorem market_data_one_rate_check_witness:
  "fst (fetchMarketData enUS (answers indexAnswer) 1000 defaultIndices
          \<lparr>minute = 20, day = 20, lastMinuteReset = 0, lastDayReset = 0\<rparr> net0) =
     Inl RateLimitExceeded \<and>
   snd (snd (fetchMarketData enUS (answers indexAnswer) 1000 defaultIndices
               \<lparr>minute = 20, day = 20, lastMinuteReset = 0, lastDayReset = 0\<rparr> net0)) = net0 \<and>
   snd (snd (fetchMarketData enUS (answers indexAnswer) 1000 defaultIndices rc0 net0)) =
     \<lparr>fetchCount = 3, waits = []\<rparr>"
proof -
  let ?full = "\<lparr>minute = 20, day = 20, lastMinuteReset = 0, lastDayReset = 0\<rparr>"
  have no: "fst (checkRateLimit 1000 ?full) = Inl RateLimitExceeded"
    by (simp add: checkRateLimit_def perMinute_def perDay_def)
  have yes: "fst (checkRateLimit 1000 rc0) = Inr ()"
    by (simp add: checkRateLimit_def rc0_def perMinute_def perDay_def)
  have a: "fst (fetchMarketData enUS (answers indexAnswer) 1000 defaultIndices ?full net0) =
        Inl RateLimitExceeded \<and>
      snd (snd (fetchMarketData enUS (answers indexAnswer) 1000 defaultIndices ?full net0)) = net0"
    using market_data_one_rate_check
      [of enUS "answers indexAnswer" 1000 defaultIndices ?full net0 "''AAPL''"] no
    by blast
  have b: "snd (snd (fetchMarketData enUS (answers indexAnswer) 1000 defaultIndices rc0 net0)) =
      netAfter (answers indexAnswer) 1000 defaultIndices net0"
    using market_data_one_rate_check
      [of enUS "answers indexAnswer" 1000 defaultIndices rc0 net0 "''AAPL''"] yes
    by blast
  have c: "netAfter (answers indexAnswer) 1000 defaultIndices net0 = \<lparr>fetchCount = 3, waits = []\<rparr>"
    by code_simp
  show ?thesis
    using a b c by simp
qed

text \<open>
  C7 as stated fails: a batch of the three default indices, each answered at once,
  makes three fetches and leaves both counters of a fresh limiter at 1.
\<close>

theorem market_data_rate_check_counterexample:
  "minute (fst (snd (fetchMarketData enUS (answers indexAnswer) 1000 defaultIndices rc0 net0))) = 1 \<and>
   day (fst (snd (fetchMarketData enUS (answers indexAnswer) 1000 defaultIndices rc0 net0))) = 1 \<and>
   fetchCount (snd (snd (fetchMarketData enUS (answers indexAnswer) 1000 defaultIndices rc0 net0))) = 3"
  by code_simp

section \<open>Properties of the history pipeline\<close>

lemma validPeriods_joined:
  "join '', '' validPeriods = ''1d, 5d, 1mo, 3mo, 6mo, 1y, 2y, 5y, 10y, ytd, max''"
  by (simp add: validPeriods_def)

lemma validIntervals_joined:
  "join '', '' validIntervals = ''1m, 2m, 5m, 15m, 30m, 60m, 90m, 1h, 1d, 5d, 1wk, 1mo, 3mo''"
  by (simp add: validIntervals_def)

lemma fetchStockHistory_invalid_net:
  "period \<notin> set validPeriods \<or> interval \<notin> set validIntervals \<Longrightarrow>
   snd (snd (fetchStockHistory rt fetch now ticker period interval rc n)) = n"
  by (auto simp: fetchStockHistory_def split: prod.splits sum.splits)

text \<open>
  C6 (as amended). A call whose period or interval is not in the list makes no fetch.
  When the rate-limit check has passed, it fails with the error that names the bad
  value (the period when both are bad) and lists the 11 periods or the 13 intervals.
\<close>

theorem history_invalid_argument:
  "(period \<notin> set validPeriods \<or> interval \<notin> set validIntervals \<longrightarrow>
      snd (snd (fetchStockHistory rt fetch now ticker period interval rc n)) = n) \<and>
   (checkRateLimit now rc = (Inr (), rc') \<and> period \<notin> set validPeriods \<longrightarrow>
      fetchStockHistory rt fetch now ticker period interval rc n =
        (Inl (Error (''Failed to fetch stock history: Invalid period: '' @ period @
                     ''. Valid periods are: 1d, 5d, 1mo, 3mo, 6mo, 1y, 2y, 5y, 10y, ytd, max'')),
         rc', n)) \<and>
   (checkRateLimit now rc = (Inr (), rc') \<and> period \<in> set validPeriods \<and>
    interval \<notin> set validIntervals \<longrightarrow>
      fetchStockHistory rt fetch now ticker period interval rc n =
        (Inl (Error (''Failed to fetch stock history: Invalid interval: '' @ interval @
                     ''. Valid intervals are: 1m, 2m, 5m, 15m, 30m, 60m, 90m, 1h, 1d, 5d, 1wk, 1mo, 3mo'')),
         rc', n)) \<and>
   length validPeriods = 11 \<and> length validIntervals = 13"
proof (intro conjI impI)
  assume "period \<notin> set validPeriods \<or> interval \<notin> set validIntervals"
  then show "snd (snd (fetchStockHistory rt fetch now ticker period interval rc n)) = n"
    by (rule fetchStockHistory_invalid_net)
next
  assume "checkRateLimit now rc = (Inr (), rc') \<and> period \<notin> set validPeriods"
  then show "fetchStockHistory rt fetch now ticker period interval rc n =
        (Inl (Error (''Failed to fetch stock history: Invalid period: '' @ period @
                     ''. Valid periods are: 1d, 5d, 1mo, 3mo, 6mo, 1y, 2y, 5y, 10y, ytd, max'')),
         rc', n)"
    by (simp add: fetchStockHistory_def failedHistory_def invalidPeriod_def validPeriods_joined)
next
  assume "checkRateLimit now rc = (Inr (), rc') \<and> period \<in> set validPeriods \<and>
    interval \<notin> set validIntervals"
  then show "fetchStockHistory rt fetch now ticker period interval rc n =
        (Inl (Error (''Failed to fetch stock history: Invalid interval: '' @ interval @
                     ''. Valid intervals are: 1m, 2m, 5m, 15m, 30m, 60m, 90m, 1h, 1d, 5d, 1wk, 1mo, 3mo'')),
         rc', n)"
    by (simp add: fetchStockHistory_def failedHistory_def invalidInterval_def validIntervals_joined)
next
  show "length validPeriods = 11" by (simp add: validPeriods_def)
  show "length validIntervals = 13" by (simp add: validIntervals_def)
qed

text \<open>The period "1week" on a fresh limiter: the error names it, and no fetch is made.\<close>

theorem history_invalid_argument_witness:
  "fetchStockHistory enUS (answers notFound) 1000 ''AAPL'' ''1week'' ''1d'' rc0 net0 =
     (Inl (Error ''Failed to fetch stock history: Invalid period: 1week. Valid periods are: 1d, 5d, 1mo, 3mo, 6mo, 1y, 2y, 5y, 10y, ytd, max''),
      rc0\<lparr>minute := 1, day := 1\<rparr>, net0) \<and>
   fetchStockHistory enUS (answers notFound) 1000 ''AAPL'' ''1mo'' ''1day'' rc0 net0 =
     (Inl (Error ''Failed to fetch stock history: Invalid interval: 1day. Valid intervals are: 1m, 2m, 5m, 15m, 30m, 60m, 90m, 1h, 1d, 5d, 1wk, 1mo, 3mo''),
      rc0\<lparr>minute := 1, day := 1\<rparr>, net0) \<and>
   snd (snd (fetchStockHistory enUS (answers notFound) 1000 ''AAPL'' ''1week'' ''1d'' rc0 net0)) = net0"
proof -
  let ?rc1 = "rc0\<lparr>minute := 1, day := 1\<rparr>"
  have pre: "checkRateLimit 1000 rc0 = (Inr (), ?rc1)"
    by (simp add: checkRateLimit_def rc0_def perMinute_def perDay_def)
  have p: "''1week'' \<notin> set validPeriods" "''1mo'' \<in> set validPeriods"
    "''1day'' \<notin> set validIntervals"
    by (simp_all add: validPeriods_def validIntervals_def)
  note a = history_invalid_argument [of "''1week''" "''1d''" enUS "answers notFound" 1000 "''AAPL''" rc0 net0 ?rc1]
  note b = history_invalid_argument [of "''1mo''" "''1day''" enUS "answers notFound" 1000 "''AAPL''" rc0 net0 ?rc1]
  have "snd (snd (fetchStockHistory enUS (answers notFound) 1000 ''AAPL'' ''1week'' ''1d'' rc0 net0)) = net0"
    using a p by blast
  moreover have "fetchStockHistory enUS (answers notFound) 1000 ''AAPL'' ''1week'' ''1d'' rc0 net0 =
     (Inl (Error (''Failed to fetch stock history: Invalid period: '' @ ''1week'' @
            ''. Valid periods are: 1d, 5d, 1mo, 3mo, 6mo, 1y, 2y, 5y, 10y, ytd, max'')), ?rc1, net0)"
    using a p pre by blast
  moreover have "fetchStockHistory enUS (answers notFound) 1000 ''AAPL'' ''1mo'' ''1day'' rc0 net0 =
     (Inl (Error (''Failed to fetch stock history: Invalid interval: '' @ ''1day'' @
            ''. Valid intervals are: 1m, 2m, 5m, 15m, 30m, 60m, 90m, 1h, 1d, 5d, 1wk, 1mo, 3mo'')), ?rc1, net0)"
    using b p pre by blast
  ultimately show ?thesis by simp
qed

text \<open>
  C6 as stated fails when the rate limit is used up: the call with the period "1week"
  then fails with the rate-limit error, which is not the error about the period.
\<close>

theorem history_invalid_argument_counterexample:
  "fst (fetchStockHistory enUS (answers notFound) 1000 ''AAPL'' ''1week'' ''1d''
          \<lparr>minute = 20, day = 20, lastMinuteReset = 0, lastDayReset = 0\<rparr> net0) =
     Inl RateLimitExceeded \<and>
   RateLimitExceeded \<noteq> failedHistory (invalidPeriod ''1week'')"
  by (simp add: fetchStockHistory_def checkRateLimit_def perMinute_def perDay_def
      RateLimitExceeded_def failedHistory_def)

text \<open>
  C10. The state of the rate limiter after a call of the history pipeline is the state
  after \<open>checkRateLimit\<close>, whatever the call returns; when the call fails with the
  error about the period or the interval, the check had passed and both counters
  stand one above their value at the check (0 when their window had run out).
\<close>

theorem history_invalid_argument_consumes_rate:
  "fst (snd (fetchStockHistory rt fetch now ticker period interval rc n)) = snd (checkRateLimit now rc) \<and>
   (fst (fetchStockHistory rt fetch now ticker period interval rc n) =
      Inl (failedHistory (invalidPeriod period)) \<or>
    fst (fetchStockHistory rt fetch now ticker period interval rc n) =
      Inl (failedHistory (invalidInterval interval)) \<longrightarrow>
      fst (checkRateLimit now rc) = Inr () \<and>
      minute (fst (snd (fetchStockHistory rt fetch now ticker period interval rc n))) =
        (if now - lastMinuteReset rc > 60000 then 0 else minute rc) + 1 \<and>
      day (fst (snd (fetchStockHistory rt fetch now ticker period interval rc n))) =
        (if now - lastDayReset rc > 86400000 then 0 else day rc) + 1)"
proof (intro conjI impI)
  show st: "fst (snd (fetchStockHistory rt fetch now ticker period interval rc n)) = snd (checkRateLimit now rc)"
    by (rule fetchStockHistory_rate_state)
  assume err: "fst (fetchStockHistory rt fetch now ticker period interval rc n) =
      Inl (failedHistory (invalidPeriod period)) \<or>
    fst (fetchStockHistory rt fetch now ticker period interval rc n) =
      Inl (failedHistory (invalidInterval interval))"
  obtain r rc' where chk: "checkRateLimit now rc = (r, rc')"
    by (cases "checkRateLimit now rc")
  have passed: "r = Inr ()"
  proof (cases r)
    case (Inl e)
    then have "fst (fetchStockHistory rt fetch now ticker period interval rc n) = Inl RateLimitExceeded"
      using chk checkRateLimit_error [of now rc e rc'] by (simp add: fetchStockHistory_def)
    then show ?thesis
      using err by (simp add: RateLimitExceeded_def failedHistory_def)
  next
    case (Inr x)
    then show ?thesis by simp
  qed
  show "fst (checkRateLimit now rc) = Inr ()"
    using chk passed by simp
  show "minute (fst (snd (fetchStockHistory rt fetch now ticker period interval rc n))) =
        (if now - lastMinuteReset rc > 60000 then 0 else minute rc) + 1"
    unfolding st using checkRateLimit_counters(1) [of now rc "()" rc'] chk passed by simp
  show "day (fst (snd (fetchStockHistory rt fetch now ticker period interval rc n))) =
        (if now - lastDayReset rc > 86400000 then 0 else day rc) + 1"
    unfolding st using checkRateLimit_counters(2) [of now rc "()" rc'] chk passed by simp
qed

text \<open>
  A fresh limiter and the period "1week": the call fails with the error about the
  period and leaves both counters at 1.
\<close>

theorem history_invalid_argument_consumes_rate_witness:
  "fst (fetchStockHistory enUS (answers notFound) 1000 ''AAPL'' ''1week'' ''1d'' rc0 net0) =
     Inl (failedHistory (invalidPeriod ''1week'')) \<and>
   minute (fst (snd (fetchStockHistory enUS (answers notFound) 1000 ''AAPL'' ''1week'' ''1d'' rc0 net0))) = 1 \<and>
   day (fst (snd (fetchStockHistory enUS (answers notFound) 1000 ''AAPL'' ''1week'' ''1d'' rc0 net0))) = 1"
proof -
  have err: "fst (fetchStockHistory enUS (answers notFound) 1000 ''AAPL'' ''1week'' ''1d'' rc0 net0) =
     Inl (failedHistory (invalidPeriod ''1week''))"
    by (simp add: fetchStockHistory_def checkRateLimit_def rc0_def perMinute_def perDay_def
        validPeriods_def)
  note inst = history_invalid_argument_consumes_rate
    [of enUS "answers notFound" 1000 "''AAPL''" "''1week''" "''1d''" rc0 net0, THEN conjunct2, THEN mp,
     OF disjI1, OF err]
  show ?thesis
    using err inst by (simp add: rc0_def)
qed

section \<open>Answers that are not a success\<close>






end
